theory Spec2Isabelle
  imports Main
begin

section \<open>Catalog-side values\<close>

text \<open>
  The package cache of APT is an external collaborator of \<^verbatim>\<open>matchers.cc\<close>: the
  matchers only read it through iterators. A \<^verbatim>\<open>PkgIterator\<close> and a non-end
  \<^verbatim>\<open>VerIterator\<close> are handles compared by identity, so both are identifiers here, and an
  end \<^verbatim>\<open>VerIterator\<close> is \<open>None\<close>. Every accessor the matchers call is a field of one
  of the records below; the field comments name the C++ expression.
\<close>

type_synonym pkg = nat
type_synonym ver = nat

datatype dep_type =
  Depends | PreDepends | Suggests | Recommends | Conflicts | Replaces | Obsoletes
  | DpkgBreaks | Enhances

datatype ver_priority = Important | Required | Standard | Optional | Extra

datatype pkg_action_state =
  pkg_unchanged | pkg_broken | pkg_unused_remove | pkg_auto_hold | pkg_auto_install
  | pkg_auto_remove | pkg_downgrade | pkg_hold | pkg_reinstall | pkg_install | pkg_remove
  | pkg_upgrade

record dep =
  dep_kind :: dep_type  \<comment> \<open>\<^verbatim>\<open>dep->Type\<close>\<close>
  dep_or :: bool  \<comment> \<open>\<^verbatim>\<open>dep->CompareOp & pkgCache::Dep::Or\<close>\<close>
  dep_compare_op :: nat  \<comment> \<open>\<^verbatim>\<open>dep->CompareOp\<close>\<close>
  dep_target_pkg :: pkg  \<comment> \<open>\<^verbatim>\<open>dep.TargetPkg()\<close>\<close>
  dep_target_ver :: "string option"  \<comment> \<open>\<^verbatim>\<open>dep.TargetVer()\<close>, a possibly null C string\<close>
  dep_parent_pkg :: pkg  \<comment> \<open>\<^verbatim>\<open>dep.ParentPkg()\<close>\<close>
  dep_parent_ver :: ver  \<comment> \<open>\<^verbatim>\<open>dep.ParentVer()\<close>\<close>
  dep_ginstall :: bool  \<comment> \<open>\<^verbatim>\<open>cache[dep] & pkgDepCache::DepGInstall\<close>\<close>
  dep_group_ginstall :: bool
    \<comment> \<open>\<^verbatim>\<open>cache[d2] & pkgDepCache::DepGInstall\<close> for the iterator \<^verbatim>\<open>d2\<close> that starts at
       this dependency and is advanced while \<^verbatim>\<open>d2->CompareOp & Or\<close>\<close>
  dep_type_text :: string  \<comment> \<open>\<^verbatim>\<open>dep.DepType()\<close>\<close>
  dep_important :: bool  \<comment> \<open>\<^verbatim>\<open>cache.GetPolicy().IsImportantDep(dep)\<close>\<close>
  dep_surrounding_or :: "(string \<times> (string \<times> string) option) list"
    \<comment> \<open>the members of \<^verbatim>\<open>surrounding_or(dep, start, end)\<close>: target name, and
       \<^verbatim>\<open>(CompType(), TargetVer())\<close> when the member has a target version\<close>

record prv =
  prv_parent_pkg :: pkg  \<comment> \<open>\<^verbatim>\<open>p.ParentPkg()\<close>\<close>
  prv_owner_pkg :: pkg  \<comment> \<open>\<^verbatim>\<open>p.OwnerPkg()\<close>\<close>
  prv_owner_ver :: ver  \<comment> \<open>\<^verbatim>\<open>p.OwnerVer()\<close>\<close>

record ver_file =
  vf_file_end :: bool  \<comment> \<open>\<^verbatim>\<open>f.File().end()\<close>\<close>
  vf_archive :: "string option"  \<comment> \<open>\<^verbatim>\<open>f.File().Archive()\<close>\<close>
  vf_origin :: "string option"  \<comment> \<open>\<^verbatim>\<open>f.File().Origin()\<close>\<close>
  vf_source_pkg :: string  \<comment> \<open>\<^verbatim>\<open>records.Lookup(f).SourcePkg()\<close>\<close>
  vf_source_ver :: string  \<comment> \<open>\<^verbatim>\<open>records.Lookup(f).SourceVer()\<close>\<close>

record version =
  ver_str :: "string option"  \<comment> \<open>\<^verbatim>\<open>ver.VerStr()\<close>\<close>
  ver_section :: "string option"  \<comment> \<open>\<^verbatim>\<open>ver.Section()\<close>\<close>
  ver_prio :: "ver_priority option"  \<comment> \<open>\<^verbatim>\<open>ver->Priority\<close>\<close>
  ver_priority_type :: string  \<comment> \<open>\<^verbatim>\<open>ver.PriorityType()\<close>\<close>
  ver_file_list :: "ver_file list"  \<comment> \<open>\<^verbatim>\<open>ver.FileList()\<close>\<close>
  ver_depends_list :: "dep list"  \<comment> \<open>\<^verbatim>\<open>ver.DependsList()\<close>\<close>
  ver_provides_list :: "prv list"  \<comment> \<open>\<^verbatim>\<open>ver.ProvidesList()\<close>\<close>
  ver_maintainer :: string  \<comment> \<open>\<^verbatim>\<open>records.Lookup(ver.FileList()).Maintainer()\<close>\<close>
  ver_long_description :: string  \<comment> \<open>\<^verbatim>\<open>get_long_description(ver, &records)\<close>\<close>

record package =
  pkg_name :: string  \<comment> \<open>\<^verbatim>\<open>pkg.Name()\<close>\<close>
  pkg_version_list :: "ver list"  \<comment> \<open>\<^verbatim>\<open>pkg.VersionList()\<close>\<close>
  pkg_current_ver :: "ver option"  \<comment> \<open>\<^verbatim>\<open>pkg.CurrentVer()\<close>\<close>
  pkg_rev_depends_list :: "dep list"  \<comment> \<open>\<^verbatim>\<open>pkg.RevDependsList()\<close>\<close>
  pkg_provides_list :: "prv list"  \<comment> \<open>\<^verbatim>\<open>pkg.ProvidesList()\<close>\<close>
  pkg_flag_essential :: bool  \<comment> \<open>\<^verbatim>\<open>pkg->Flags & Essential\<close>\<close>
  pkg_flag_important :: bool  \<comment> \<open>\<^verbatim>\<open>pkg->Flags & Important\<close>\<close>
  pkg_config_files :: bool  \<comment> \<open>\<^verbatim>\<open>pkg->CurrentState == ConfigFiles\<close>\<close>
  pkg_tasks :: "string list option"  \<comment> \<open>\<^verbatim>\<open>get_tasks(pkg)\<close>, in set order\<close>
  pkg_tags :: "string list option"  \<comment> \<open>names of \<^verbatim>\<open>get_tags(pkg)\<close>, in set order\<close>
  pkg_is_obsolete :: bool  \<comment> \<open>\<^verbatim>\<open>pkg_obsolete(pkg)\<close>\<close>

record state_cache =
  st_candidate_ver :: "ver option"  \<comment> \<open>\<^verbatim>\<open>cache[pkg].CandidateVerIter(cache)\<close>\<close>
  st_inst_ver :: "ver option"  \<comment> \<open>\<^verbatim>\<open>cache[pkg].InstVerIter(cache)\<close>\<close>
  st_install :: bool  \<comment> \<open>\<^verbatim>\<open>cache[pkg].Install()\<close>\<close>
  st_auto :: bool  \<comment> \<open>\<^verbatim>\<open>cache[pkg].Flags & pkgCache::Flag::Auto\<close>\<close>
  st_now_broken :: bool  \<comment> \<open>\<^verbatim>\<open>cache[pkg].NowBroken()\<close>\<close>
  st_inst_broken :: bool  \<comment> \<open>\<^verbatim>\<open>cache[pkg].InstBroken()\<close>\<close>
  st_purge :: bool  \<comment> \<open>\<^verbatim>\<open>cache[pkg].iFlags & pkgDepCache::Purge\<close>\<close>
  st_keep :: bool  \<comment> \<open>\<^verbatim>\<open>cache[pkg].Keep()\<close>\<close>
  st_garbage :: bool  \<comment> \<open>\<^verbatim>\<open>cache[pkg].Garbage\<close>\<close>
  st_upgradable :: bool  \<comment> \<open>\<^verbatim>\<open>cache[pkg].Upgradable()\<close>\<close>
  st_user_tags :: "string list"
    \<comment> \<open>\<^verbatim>\<open>cache.deref_user_tag\<close> of each of \<^verbatim>\<open>cache.get_ext_state(pkg).user_tags\<close>\<close>
  st_selection_hold :: bool
    \<comment> \<open>\<^verbatim>\<open>cache.get_ext_state(pkg).selection_state == pkgCache::State::Hold\<close>\<close>
  st_new_package :: bool  \<comment> \<open>\<^verbatim>\<open>cache.get_ext_state(pkg).new_package\<close>\<close>
  st_action :: pkg_action_state  \<comment> \<open>\<^verbatim>\<open>find_pkg_state(pkg, cache)\<close>\<close>

record catalog =
  package_of :: "pkg \<Rightarrow> package"
  state_of :: "pkg \<Rightarrow> state_cache"
  version_of :: "ver \<Rightarrow> version"
  check_dep :: "string option \<Rightarrow> nat \<Rightarrow> string option \<Rightarrow> bool"
    \<comment> \<open>\<^verbatim>\<open>_system->VS->CheckDep(i.VerStr(), dep->CompareOp, dep.TargetVer())\<close>\<close>
  regexec :: "string \<Rightarrow> string \<Rightarrow> string list option"
    \<comment> \<open>the C library's \<^verbatim>\<open>regexec\<close> on the pattern compiled with
       \<^verbatim>\<open>REG_ICASE|REG_EXTENDED\<close>: \<open>None\<close> when the subject does not match, else the
       populated groups (group 0 first)\<close>
  dep_type_name :: "dep_type \<Rightarrow> string"  \<comment> \<open>\<^verbatim>\<open>pkgCache::DepType(type)\<close>\<close>

definition version_list :: "catalog \<Rightarrow> pkg \<Rightarrow> ver list" where
  "version_list cat p = pkg_version_list (package_of cat p)"

definition current_ver :: "catalog \<Rightarrow> pkg \<Rightarrow> ver option" where
  "current_ver cat p = pkg_current_ver (package_of cat p)"

definition name_of :: "catalog \<Rightarrow> pkg \<Rightarrow> string" where
  "name_of cat p = pkg_name (package_of cat p)"

text \<open>
  \<^verbatim>\<open>VerStr()\<close> handed to a \<^verbatim>\<open>std::string\<close> or to \<^verbatim>\<open>regexec\<close>: the sources
  do not test it for null there, and APT never returns null for a real version; a null
  is read as the empty string.
\<close>

definition c_str :: "string option \<Rightarrow> string" where
  "c_str s = (case s of None \<Rightarrow> [] | Some t \<Rightarrow> t)"

section \<open>Match results\<close>

text \<open>
  The classes derived from \<^verbatim>\<open>pkg_match_result\<close>: \<^verbatim>\<open>empty_match_result\<close>,
  \<^verbatim>\<open>unitary_result\<close>, \<^verbatim>\<open>result_pair\<close>, \<^verbatim>\<open>pkg_string_matcher::match_result\<close>
  and \<^verbatim>\<open>pkg_const_matcher::const_name_result\<close>. A null pointer is \<open>None\<close>.
\<close>

datatype pkg_match_result =
  Empty_match_result
  | Unitary_result string
  | Result_pair pkg_match_result pkg_match_result
  | Match_result "string list"
  | Const_name_result string

fun num_groups :: "pkg_match_result \<Rightarrow> nat" where
  "num_groups Empty_match_result = 0"
| "num_groups (Unitary_result s) = 1"
| "num_groups (Result_pair r1 r2) = num_groups r1 + num_groups r2"
| "num_groups (Match_result ms) = length ms"
| "num_groups (Const_name_result s) = 1"

subsection \<open>\<^verbatim>\<open>pkg_string_matcher\<close>\<close>

text \<open>
  The constructor compiles \<^verbatim>\<open>".*"\<close> when the pattern is empty and the pattern itself
  otherwise; a string-matcher node of the model carries the pattern that was compiled.
  \<^verbatim>\<open>string_matches\<close> runs \<^verbatim>\<open>regexec\<close> on the compilation without groups,
  \<^verbatim>\<open>get_string_match\<close> on the one with groups and an array of 30
  \<^verbatim>\<open>regmatch_t\<close>; both compilations are of the same pattern and accept the same
  subjects.
\<close>

definition compiled_pattern :: "string \<Rightarrow> string" where
  "compiled_pattern p = (if p = [] then ''.*'' else p)"

definition string_matches :: "catalog \<Rightarrow> string \<Rightarrow> string \<Rightarrow> bool" where
  "string_matches cat pat s = (regexec cat pat s \<noteq> None)"

definition get_string_match :: "catalog \<Rightarrow> string \<Rightarrow> string \<Rightarrow> pkg_match_result option" where
  "get_string_match cat pat s =
     (case regexec cat pat s of
        None \<Rightarrow> None
      | Some gs \<Rightarrow> Some (Match_result (take 30 gs)))"

text \<open>The loops that return the first non-null \<^verbatim>\<open>get_string_match\<close>.\<close>

fun first_string_match :: "catalog \<Rightarrow> string \<Rightarrow> string list \<Rightarrow> pkg_match_result option" where
  "first_string_match cat pat [] = None"
| "first_string_match cat pat (s # ss) =
     (case get_string_match cat pat s of
        Some r \<Rightarrow> Some r
      | None \<Rightarrow> first_string_match cat pat ss)"

text \<open>\<^verbatim>\<open>pkg_trivial_string_matcher\<close>: \<^verbatim>\<open>val\<close> yields a \<^verbatim>\<open>match_target\<close>, a pair
  whose first component says whether there is a string at all.\<close>

definition trivial_matches :: "catalog \<Rightarrow> string \<Rightarrow> string option \<Rightarrow> bool" where
  "trivial_matches cat pat tgt =
     (case tgt of None \<Rightarrow> False | Some s \<Rightarrow> string_matches cat pat s)"

definition trivial_get_match ::
  "catalog \<Rightarrow> string \<Rightarrow> string option \<Rightarrow> pkg_match_result option" where
  "trivial_get_match cat pat tgt =
     (case tgt of None \<Rightarrow> None | Some s \<Rightarrow> get_string_match cat pat s)"

subsection \<open>Source package and source version\<close>

text \<open>
  The loop of \<^verbatim>\<open>pkg_source_package_matcher::matches\<close> and of
  \<^verbatim>\<open>pkg_source_version_matcher::matches\<close> over the file records of a version. The
  two differ only in the field read (\<^verbatim>\<open>SourcePkg()\<close>, \<^verbatim>\<open>SourceVer()\<close>) and in the
  default (\<^verbatim>\<open>pkg.Name()\<close>, \<^verbatim>\<open>ver.VerStr()\<close>). The local
  \<^verbatim>\<open>checked_real_package\<close> is the third argument: the source initialises it to
  \<^verbatim>\<open>false\<close>, tests it at every empty field and never assigns it. The second component
  of the result lists, in order, the strings handed to \<^verbatim>\<open>string_matches\<close>.
\<close>

fun source_scan :: "(string \<Rightarrow> bool) \<Rightarrow> string \<Rightarrow> bool \<Rightarrow> string list \<Rightarrow> bool \<times> string list" where
  "source_scan sm dflt checked [] = (False, [])"
| "source_scan sm dflt checked (f # fs) =
     (if f = [] then
        (if \<not> checked then
           (if sm dflt then (True, [dflt])
            else (fst (source_scan sm dflt checked fs),
                  dflt # snd (source_scan sm dflt checked fs)))
         else source_scan sm dflt checked fs)
      else if sm f then (True, [f])
      else (fst (source_scan sm dflt checked fs), f # snd (source_scan sm dflt checked fs)))"

text \<open>The same loop in the two \<^verbatim>\<open>get_match\<close> members, with
  \<^verbatim>\<open>get_string_match\<close>.\<close>

fun source_scan_match ::
  "(string \<Rightarrow> pkg_match_result option) \<Rightarrow> string \<Rightarrow> bool \<Rightarrow> string list \<Rightarrow> pkg_match_result option" where
  "source_scan_match gm dflt checked [] = None"
| "source_scan_match gm dflt checked (f # fs) =
     (if f = [] then
        (if \<not> checked then
           (case gm dflt of Some r \<Rightarrow> Some r | None \<Rightarrow> source_scan_match gm dflt checked fs)
         else source_scan_match gm dflt checked fs)
      else (case gm f of Some r \<Rightarrow> Some r | None \<Rightarrow> source_scan_match gm dflt checked fs))"

definition source_package_matches :: "catalog \<Rightarrow> string \<Rightarrow> pkg \<Rightarrow> ver option \<Rightarrow> bool" where
  "source_package_matches cat pat p v =
     (case v of
        None \<Rightarrow> False
      | Some w \<Rightarrow>
          (if ver_file_list (version_of cat w) = [] then False
           else fst (source_scan (string_matches cat pat) (name_of cat p) False
                  (map vf_source_pkg (ver_file_list (version_of cat w))))))"

definition source_version_matches :: "catalog \<Rightarrow> string \<Rightarrow> pkg \<Rightarrow> ver option \<Rightarrow> bool" where
  "source_version_matches cat pat p v =
     (case v of
        None \<Rightarrow> False
      | Some w \<Rightarrow>
          (if ver_file_list (version_of cat w) = [] then False
           else fst (source_scan (string_matches cat pat) (c_str (ver_str (version_of cat w))) False
                  (map vf_source_ver (ver_file_list (version_of cat w))))))"

definition source_package_get_match ::
  "catalog \<Rightarrow> string \<Rightarrow> pkg \<Rightarrow> ver option \<Rightarrow> pkg_match_result option" where
  "source_package_get_match cat pat p v =
     (case v of
        None \<Rightarrow> None
      | Some w \<Rightarrow>
          (if ver_file_list (version_of cat w) = [] then None
           else source_scan_match (get_string_match cat pat) (name_of cat p) False
                  (map vf_source_pkg (ver_file_list (version_of cat w)))))"

definition source_version_get_match ::
  "catalog \<Rightarrow> string \<Rightarrow> pkg \<Rightarrow> ver option \<Rightarrow> pkg_match_result option" where
  "source_version_get_match cat pat p v =
     (case v of
        None \<Rightarrow> None
      | Some w \<Rightarrow>
          (if ver_file_list (version_of cat w) = [] then None
           else source_scan_match (get_string_match cat pat) (c_str (ver_str (version_of cat w))) False
                  (map vf_source_ver (ver_file_list (version_of cat w)))))"

section \<open>Matcher nodes that ignore the stack\<close>

text \<open>
  One constructor for each class derived from \<^verbatim>\<open>pkg_matcher_real\<close> that has no
  sub-matcher and never reads the match stack. The string argument of a string matcher
  is the compiled pattern.
\<close>

datatype leaf =
  Name_matcher string
  | Description_matcher string
  | Maintainer_matcher string
  | Section_matcher string
  | Version_matcher string
  | Curr_version_matcher
  | Cand_version_matcher
  | Inst_version_matcher
  | Task_matcher string
  | Tag_matcher string
  | User_tag_matcher string
  | Origin_matcher string
  | Archive_matcher string
  | Source_package_matcher string
  | Source_version_matcher string
  | Auto_matcher
  | Broken_matcher
  | Priority_matcher ver_priority
  | Broken_type_matcher dep_type
  | Action_matcher pkg_action_state bool
  | Keep_matcher
  | Virtual_matcher
  | Installed_matcher
  | Essential_matcher
  | Configfiles_matcher
  | Garbage_matcher
  | True_matcher
  | False_matcher
  | Norevdep_matcher
  | Norevdep_type_matcher dep_type
  | New_matcher
  | Upgradable_matcher
  | Obsolete_matcher
  | Const_matcher pkg

text \<open>\<^verbatim>\<open>dep_match\<close>: the rendering of a dependency and of its or-group.\<close>

definition or_member_text :: "string \<times> (string \<times> string) option \<Rightarrow> string" where
  "or_member_text m =
     (case snd m of
        None \<Rightarrow> fst m
      | Some ct \<Rightarrow> fst m @ '' ('' @ fst ct @ '' '' @ snd ct @ '')'')"

fun realization :: "(string \<times> (string \<times> string) option) list \<Rightarrow> string" where
  "realization [] = []"
| "realization [m] = or_member_text m"
| "realization (m # ms) = or_member_text m @ '' | '' @ realization ms"

definition dep_match :: "dep \<Rightarrow> pkg_match_result" where
  "dep_match d =
     Result_pair (Unitary_result (dep_type_text d))
       (Unitary_result (realization (dep_surrounding_or d)))"

text \<open>
  The loop of \<^verbatim>\<open>pkg_broken_type_matcher\<close>: the iterator is advanced to the last
  member of each or-group, which alone is tested. A dependency list of APT never ends
  inside an or-group; the model ends the loop there, where the source would read past
  the end of the list.
\<close>

fun broken_type_scan :: "dep_type \<Rightarrow> dep list \<Rightarrow> dep option" where
  "broken_type_scan t [] = None"
| "broken_type_scan t (d # ds) =
     (if dep_or d then broken_type_scan t ds
      else if dep_kind d = t \<and> \<not> dep_ginstall d then Some d
      else broken_type_scan t ds)"

definition file_field_matches ::
  "catalog \<Rightarrow> string \<Rightarrow> (ver_file \<Rightarrow> string option) \<Rightarrow> ver_file \<Rightarrow> bool" where
  "file_field_matches cat pat fld f =
     (if vf_file_end f then False
      else (case fld f of None \<Rightarrow> False | Some s \<Rightarrow> string_matches cat pat s))"

fun file_field_first ::
  "catalog \<Rightarrow> string \<Rightarrow> (ver_file \<Rightarrow> string option) \<Rightarrow> ver_file list \<Rightarrow> pkg_match_result option" where
  "file_field_first cat pat fld [] = None"
| "file_field_first cat pat fld (f # fs) =
     (if vf_file_end f then file_field_first cat pat fld fs
      else (case fld f of
              None \<Rightarrow> file_field_first cat pat fld fs
            | Some s \<Rightarrow>
                (case get_string_match cat pat s of
                   Some r \<Rightarrow> Some r
                 | None \<Rightarrow> file_field_first cat pat fld fs)))"

definition action_matches :: "catalog \<Rightarrow> pkg_action_state \<Rightarrow> bool \<Rightarrow> pkg \<Rightarrow> bool" where
  "action_matches cat type require_purge p =
     (if require_purge \<and> \<not> st_purge (state_of cat p) then False
      else (case type of
              pkg_install \<Rightarrow>
                st_action (state_of cat p) = pkg_install \<or> st_action (state_of cat p) = pkg_auto_install
            | pkg_hold \<Rightarrow> current_ver cat p \<noteq> None \<and> st_selection_hold (state_of cat p)
            | pkg_remove \<Rightarrow>
                st_action (state_of cat p) = pkg_remove \<or> st_action (state_of cat p) = pkg_auto_remove
                \<or> st_action (state_of cat p) = pkg_unused_remove
            | _ \<Rightarrow> st_action (state_of cat p) = type))"

fun action_text :: "pkg_action_state \<Rightarrow> string" where
  "action_text pkg_unchanged = ''Unchanged''"
| "action_text pkg_broken = ''Broken''"
| "action_text pkg_unused_remove = ''Remove [unused]''"
| "action_text pkg_auto_hold = ''Hold [auto]''"
| "action_text pkg_auto_install = ''Install [auto]''"
| "action_text pkg_auto_remove = ''Remove [auto]''"
| "action_text pkg_downgrade = ''Downgrade''"
| "action_text pkg_hold = ''Hold''"
| "action_text pkg_reinstall = ''Reinstall''"
| "action_text pkg_install = ''Install''"
| "action_text pkg_remove = ''Remove''"
| "action_text pkg_upgrade = ''Upgrade''"

definition installed_dependers :: "catalog \<Rightarrow> (dep \<Rightarrow> bool) \<Rightarrow> pkg \<Rightarrow> bool" where
  "installed_dependers cat sel p =
     list_ex (\<lambda>d. sel d \<and> current_ver cat (dep_parent_pkg d) \<noteq> None)
       (pkg_rev_depends_list (package_of cat p))"

text \<open>
  \<^verbatim>\<open>matches(pkg, ver, cache, records, stack)\<close> of each of these classes. The user-tag
  matcher memoises \<^verbatim>\<open>get_string_match\<close> per tag in \<^verbatim>\<open>cached_matches\<close> and
  recomputes a cached null, so the memo changes no result and is left out.
\<close>

fun leaf_matches :: "catalog \<Rightarrow> leaf \<Rightarrow> pkg \<Rightarrow> ver option \<Rightarrow> bool" where
  "leaf_matches cat (Name_matcher pat) p v = trivial_matches cat pat (Some (name_of cat p))"
| "leaf_matches cat (Description_matcher pat) p v =
     trivial_matches cat pat
       (case v of None \<Rightarrow> None | Some w \<Rightarrow> Some (ver_long_description (version_of cat w)))"
| "leaf_matches cat (Maintainer_matcher pat) p v =
     trivial_matches cat pat
       (case v of None \<Rightarrow> None | Some w \<Rightarrow> Some (ver_maintainer (version_of cat w)))"
| "leaf_matches cat (Section_matcher pat) p v =
     trivial_matches cat pat
       (case v of None \<Rightarrow> None | Some w \<Rightarrow> ver_section (version_of cat w))"
| "leaf_matches cat (Version_matcher pat) p v =
     trivial_matches cat pat
       (case v of None \<Rightarrow> None | Some w \<Rightarrow> ver_str (version_of cat w))"
| "leaf_matches cat Curr_version_matcher p v = (v \<noteq> None \<and> v = current_ver cat p)"
| "leaf_matches cat Cand_version_matcher p v =
     (v \<noteq> None \<and> v = st_candidate_ver (state_of cat p))"
| "leaf_matches cat Inst_version_matcher p v = (v \<noteq> None \<and> v = st_inst_ver (state_of cat p))"
| "leaf_matches cat (Task_matcher pat) p v =
     (case pkg_tasks (package_of cat p) of
        None \<Rightarrow> False
      | Some l \<Rightarrow> list_ex (string_matches cat pat) l)"
| "leaf_matches cat (Tag_matcher pat) p v =
     (case pkg_tags (package_of cat p) of
        None \<Rightarrow> False
      | Some l \<Rightarrow> list_ex (string_matches cat pat) l)"
| "leaf_matches cat (User_tag_matcher pat) p v =
     (first_string_match cat pat (st_user_tags (state_of cat p)) \<noteq> None)"
| "leaf_matches cat (Origin_matcher pat) p v =
     (case v of
        None \<Rightarrow> False
      | Some w \<Rightarrow> list_ex (file_field_matches cat pat vf_origin) (ver_file_list (version_of cat w)))"
| "leaf_matches cat (Archive_matcher pat) p v =
     (case v of
        None \<Rightarrow> False
      | Some w \<Rightarrow>
          (if ver_file_list (version_of cat w) = [] then False
           else list_ex (file_field_matches cat pat vf_archive) (ver_file_list (version_of cat w))))"
| "leaf_matches cat (Source_package_matcher pat) p v = source_package_matches cat pat p v"
| "leaf_matches cat (Source_version_matcher pat) p v = source_version_matches cat pat p v"
| "leaf_matches cat Auto_matcher p v =
     ((current_ver cat p \<noteq> None \<or> st_install (state_of cat p)) \<and> st_auto (state_of cat p))"
| "leaf_matches cat Broken_matcher p v =
     (case v of
        None \<Rightarrow> False
      | Some w \<Rightarrow> st_now_broken (state_of cat p) \<or> st_inst_broken (state_of cat p))"
| "leaf_matches cat (Priority_matcher type) p v =
     (case v of None \<Rightarrow> False | Some w \<Rightarrow> ver_prio (version_of cat w) = Some type)"
| "leaf_matches cat (Broken_type_matcher type) p v =
     (case v of
        None \<Rightarrow> False
      | Some w \<Rightarrow> broken_type_scan type (ver_depends_list (version_of cat w)) \<noteq> None)"
| "leaf_matches cat (Action_matcher type require_purge) p v =
     action_matches cat type require_purge p"
| "leaf_matches cat Keep_matcher p v = st_keep (state_of cat p)"
| "leaf_matches cat Virtual_matcher p v = (v = None)"
| "leaf_matches cat Installed_matcher p v = (current_ver cat p \<noteq> None \<and> v = current_ver cat p)"
| "leaf_matches cat Essential_matcher p v =
     (pkg_flag_essential (package_of cat p) \<or> pkg_flag_important (package_of cat p))"
| "leaf_matches cat Configfiles_matcher p v = pkg_config_files (package_of cat p)"
| "leaf_matches cat Garbage_matcher p v =
     (case v of None \<Rightarrow> False | Some w \<Rightarrow> st_garbage (state_of cat p))"
| "leaf_matches cat True_matcher p v = True"
| "leaf_matches cat False_matcher p v = False"
| "leaf_matches cat Norevdep_matcher p v =
     (case v of None \<Rightarrow> False | Some w \<Rightarrow> \<not> installed_dependers cat dep_important p)"
| "leaf_matches cat (Norevdep_type_matcher type) p v =
     (case v of None \<Rightarrow> False | Some w \<Rightarrow> \<not> installed_dependers cat (\<lambda>d. dep_kind d = type) p)"
| "leaf_matches cat New_matcher p v =
     (if version_list cat p = [] then False else st_new_package (state_of cat p))"
| "leaf_matches cat Upgradable_matcher p v =
     (current_ver cat p \<noteq> None \<and> st_upgradable (state_of cat p))"
| "leaf_matches cat Obsolete_matcher p v = pkg_is_obsolete (package_of cat p)"
| "leaf_matches cat (Const_matcher match_pkg) p v = (p = match_pkg)"

text \<open>\<^verbatim>\<open>get_match(pkg, ver, cache, records, stack)\<close> of the same classes.\<close>

definition ver_text :: "catalog \<Rightarrow> ver option \<Rightarrow> string" where
  "ver_text cat v = (case v of None \<Rightarrow> [] | Some w \<Rightarrow> c_str (ver_str (version_of cat w)))"

definition when_matches :: "bool \<Rightarrow> pkg_match_result \<Rightarrow> pkg_match_result option" where
  "when_matches b r = (if b then Some r else None)"

fun leaf_get_match :: "catalog \<Rightarrow> leaf \<Rightarrow> pkg \<Rightarrow> ver option \<Rightarrow> pkg_match_result option" where
  "leaf_get_match cat (Name_matcher pat) p v = trivial_get_match cat pat (Some (name_of cat p))"
| "leaf_get_match cat (Description_matcher pat) p v =
     trivial_get_match cat pat
       (case v of None \<Rightarrow> None | Some w \<Rightarrow> Some (ver_long_description (version_of cat w)))"
| "leaf_get_match cat (Maintainer_matcher pat) p v =
     trivial_get_match cat pat
       (case v of None \<Rightarrow> None | Some w \<Rightarrow> Some (ver_maintainer (version_of cat w)))"
| "leaf_get_match cat (Section_matcher pat) p v =
     trivial_get_match cat pat
       (case v of None \<Rightarrow> None | Some w \<Rightarrow> ver_section (version_of cat w))"
| "leaf_get_match cat (Version_matcher pat) p v =
     trivial_get_match cat pat
       (case v of None \<Rightarrow> None | Some w \<Rightarrow> ver_str (version_of cat w))"
| "leaf_get_match cat Curr_version_matcher p v =
     when_matches (leaf_matches cat Curr_version_matcher p v) (Unitary_result (ver_text cat v))"
| "leaf_get_match cat Cand_version_matcher p v =
     when_matches (leaf_matches cat Cand_version_matcher p v) (Unitary_result (ver_text cat v))"
| "leaf_get_match cat Inst_version_matcher p v =
     when_matches (leaf_matches cat Inst_version_matcher p v) (Unitary_result (ver_text cat v))"
| "leaf_get_match cat (Task_matcher pat) p v =
     (case pkg_tasks (package_of cat p) of
        None \<Rightarrow> None
      | Some l \<Rightarrow> first_string_match cat pat l)"
| "leaf_get_match cat (Tag_matcher pat) p v =
     (case pkg_tags (package_of cat p) of
        None \<Rightarrow> None
      | Some l \<Rightarrow> first_string_match cat pat l)"
| "leaf_get_match cat (User_tag_matcher pat) p v =
     first_string_match cat pat (st_user_tags (state_of cat p))"
| "leaf_get_match cat (Origin_matcher pat) p v =
     (case v of
        None \<Rightarrow> None
      | Some w \<Rightarrow> file_field_first cat pat vf_origin (ver_file_list (version_of cat w)))"
| "leaf_get_match cat (Archive_matcher pat) p v =
     (case v of
        None \<Rightarrow> None
      | Some w \<Rightarrow>
          (if ver_file_list (version_of cat w) = [] then None
           else file_field_first cat pat vf_archive (ver_file_list (version_of cat w))))"
| "leaf_get_match cat (Source_package_matcher pat) p v = source_package_get_match cat pat p v"
| "leaf_get_match cat (Source_version_matcher pat) p v = source_version_get_match cat pat p v"
| "leaf_get_match cat Auto_matcher p v =
     when_matches (leaf_matches cat Auto_matcher p v) (Unitary_result ''Automatically Installed'')"
| "leaf_get_match cat Broken_matcher p v =
     when_matches (leaf_matches cat Broken_matcher p v) (Unitary_result ''Broken'')"
| "leaf_get_match cat (Priority_matcher type) p v =
     (case v of
        None \<Rightarrow> None
      | Some w \<Rightarrow>
          (if ver_prio (version_of cat w) \<noteq> Some type then None
           else Some (Unitary_result (ver_priority_type (version_of cat w)))))"
| "leaf_get_match cat (Broken_type_matcher type) p v =
     (case v of
        None \<Rightarrow> None
      | Some w \<Rightarrow>
          (case broken_type_scan type (ver_depends_list (version_of cat w)) of
             None \<Rightarrow> None
           | Some d \<Rightarrow> Some (dep_match d)))"
| "leaf_get_match cat (Action_matcher type require_purge) p v =
     (if \<not> action_matches cat type require_purge p then None
      else Some (Unitary_result (action_text type)))"
| "leaf_get_match cat Keep_matcher p v =
     (if st_keep (state_of cat p) then Some (Unitary_result ''Keep'') else None)"
| "leaf_get_match cat Virtual_matcher p v =
     (if v \<noteq> None then None else Some (Unitary_result ''Virtual''))"
| "leaf_get_match cat Installed_matcher p v =
     (if current_ver cat p = None \<or> v \<noteq> current_ver cat p then None
      else Some (Unitary_result ''Installed''))"
| "leaf_get_match cat Essential_matcher p v =
     (if \<not> leaf_matches cat Essential_matcher p v then None
      else Some (Unitary_result ''Essential''))"
| "leaf_get_match cat Configfiles_matcher p v =
     (if pkg_config_files (package_of cat p) then Some (Unitary_result ''Config Files Remain'')
      else None)"
| "leaf_get_match cat Garbage_matcher p v =
     (if \<not> leaf_matches cat Garbage_matcher p v then None
      else Some (Unitary_result ''Garbage''))"
| "leaf_get_match cat True_matcher p v = Some Empty_match_result"
| "leaf_get_match cat False_matcher p v = None"
| "leaf_get_match cat Norevdep_matcher p v =
     (if \<not> leaf_matches cat Norevdep_matcher p v then None
      else Some (Unitary_result ''No reverse dependencies''))"
| "leaf_get_match cat (Norevdep_type_matcher type) p v =
     (if \<not> leaf_matches cat (Norevdep_type_matcher type) p v then None
      else Some (Unitary_result (dep_type_name cat type)))"
| "leaf_get_match cat New_matcher p v =
     (if \<not> leaf_matches cat New_matcher p v then None
      else Some (Unitary_result ''New Package''))"
| "leaf_get_match cat Upgradable_matcher p v =
     (if \<not> leaf_matches cat Upgradable_matcher p v then None
      else Some (Unitary_result ''Upgradable''))"
| "leaf_get_match cat Obsolete_matcher p v =
     (if \<not> leaf_matches cat Obsolete_matcher p v then None
      else Some (Unitary_result ''Obsolete''))"
| "leaf_get_match cat (Const_matcher match_pkg) p v =
     (if p = match_pkg then Some (Const_name_result (name_of cat p)) else None)"

section \<open>The match stack and the matcher tree\<close>

text \<open>
  \<^verbatim>\<open>stack_value\<close> is a package or a version of a package; its \<^verbatim>\<open>value_type\<close> has
  these two values only, so \<^verbatim>\<open>THROW_BAD_VALUE\<close> is unreachable. \<^verbatim>\<open>package(pkg)\<close>
  stores an end version iterator.
\<close>

datatype stack_value = Package_value pkg | Version_value pkg "ver option"

type_synonym match_stack = "stack_value list"

fun is_match_for :: "stack_value \<Rightarrow> stack_value \<Rightarrow> bool" where
  "is_match_for (Package_value p) (Package_value q) = (p = q)"
| "is_match_for (Package_value p) (Version_value q w) = (p = q)"
| "is_match_for (Version_value p v) (Package_value q) = (p = q)"
| "is_match_for (Version_value p v) (Version_value q w) = (p = q \<and> v = w)"

text \<open>
  The classes with a sub-matcher or a stack index. \<^verbatim>\<open>eassert\<close> throws when its
  condition is false; the only assertion evaluation can reach with valid package handles
  is the index check of \<^verbatim>\<open>pkg_bind_matcher\<close> and \<^verbatim>\<open>pkg_equal_matcher\<close>.
\<close>

datatype matcher =
  Leaf leaf
  | Dep_matcher dep_type matcher bool
  | Or_matcher matcher matcher
  | And_matcher matcher matcher
  | Not_matcher matcher
  | Widen_matcher matcher
  | Select_matcher matcher matcher
  | Revdep_matcher dep_type matcher bool
  | Provides_matcher matcher
  | Revprv_matcher matcher
  | All_matcher matcher
  | Any_matcher matcher
  | Explicit_matcher matcher
  | Bind_matcher matcher nat
  | Equal_matcher nat

datatype eval_error = Assertion_failure

type_synonym 'a eval = "eval_error + 'a"

subsection \<open>Control flow shared by the classes\<close>

text \<open>The C++ operators \<^verbatim>\<open>&&\<close>, \<^verbatim>\<open>||\<close> and \<^verbatim>\<open>!\<close> on calls that may throw.\<close>

definition and_then :: "bool eval \<Rightarrow> bool eval \<Rightarrow> bool eval" where
  "and_then a b = (case a of Inl e \<Rightarrow> Inl e | Inr x \<Rightarrow> if x then b else Inr False)"

definition or_else :: "bool eval \<Rightarrow> bool eval \<Rightarrow> bool eval" where
  "or_else a b = (case a of Inl e \<Rightarrow> Inl e | Inr x \<Rightarrow> if x then Inr True else b)"

definition not_of :: "bool eval \<Rightarrow> bool eval" where
  "not_of a = (case a of Inl e \<Rightarrow> Inl e | Inr x \<Rightarrow> Inr (\<not> x))"

text \<open>\<^verbatim>\<open>for(...) if(f(x)) return true; return false;\<close>\<close>

fun any_of :: "('a \<Rightarrow> bool eval) \<Rightarrow> 'a list \<Rightarrow> bool eval" where
  "any_of f [] = Inr False"
| "any_of f (x # xs) =
     (case f x of Inl e \<Rightarrow> Inl e | Inr b \<Rightarrow> if b then Inr True else any_of f xs)"

text \<open>\<^verbatim>\<open>for(...) if(!f(x)) return false; return true;\<close>\<close>

fun all_of :: "('a \<Rightarrow> bool eval) \<Rightarrow> 'a list \<Rightarrow> bool eval" where
  "all_of f [] = Inr True"
| "all_of f (x # xs) =
     (case f x of Inl e \<Rightarrow> Inl e | Inr b \<Rightarrow> if b then all_of f xs else Inr False)"

text \<open>The first non-null result of two, and of a loop.\<close>

definition or_else_match ::
  "pkg_match_result option eval \<Rightarrow> pkg_match_result option eval \<Rightarrow> pkg_match_result option eval" where
  "or_else_match a b =
     (case a of Inl e \<Rightarrow> Inl e | Inr None \<Rightarrow> b | Inr (Some r) \<Rightarrow> Inr (Some r))"

fun first_of :: "('a \<Rightarrow> pkg_match_result option eval) \<Rightarrow> 'a list \<Rightarrow> pkg_match_result option eval" where
  "first_of g [] = Inr None"
| "first_of g (x # xs) =
     (case g x of Inl e \<Rightarrow> Inl e | Inr None \<Rightarrow> first_of g xs | Inr (Some r) \<Rightarrow> Inr (Some r))"

text \<open>\<^verbatim>\<open>if(r) return new result_pair(r, x);\<close>\<close>

definition paired_with ::
  "pkg_match_result option eval \<Rightarrow> pkg_match_result \<Rightarrow> pkg_match_result option eval" where
  "paired_with a x =
     (case a of Inl e \<Rightarrow> Inl e | Inr None \<Rightarrow> Inr None | Inr (Some r) \<Rightarrow> Inr (Some (Result_pair r x)))"

text \<open>
  The loop of \<^verbatim>\<open>pkg_all_matcher::get_match(pkg, ...)\<close>: \<^verbatim>\<open>tmp\<close> is the second
  argument; the first null result is returned at once, else the last result.
\<close>

fun last_of ::
  "('a \<Rightarrow> pkg_match_result option eval) \<Rightarrow> pkg_match_result option \<Rightarrow> 'a list
   \<Rightarrow> pkg_match_result option eval" where
  "last_of g tmp [] = Inr tmp"
| "last_of g tmp (x # xs) =
     (case g x of Inl e \<Rightarrow> Inl e | Inr None \<Rightarrow> Inr None | Inr (Some r) \<Rightarrow> last_of g (Some r) xs)"

text \<open>
  The members \<^verbatim>\<open>pkg_matcher_real::matches(pkg, cache, records, stack)\<close> and
  \<^verbatim>\<open>pkg_matcher_real::get_match(pkg, cache, records, stack)\<close> that a class inherits
  unless it overrides them: every version in turn, and the end version when the package
  has no version.
\<close>

definition matches_versions :: "(ver option \<Rightarrow> bool eval) \<Rightarrow> ver list \<Rightarrow> bool eval" where
  "matches_versions f vs =
     (case any_of (\<lambda>v. f (Some v)) vs of
        Inl e \<Rightarrow> Inl e
      | Inr b \<Rightarrow> if b then Inr True else if vs = [] then f None else Inr False)"

definition get_match_versions ::
  "(ver option \<Rightarrow> pkg_match_result option eval) \<Rightarrow> ver list \<Rightarrow> pkg_match_result option eval" where
  "get_match_versions g vs =
     (case first_of (\<lambda>v. g (Some v)) vs of
        Inl e \<Rightarrow> Inl e
      | Inr r \<Rightarrow> if vs = [] then g None else Inr r)"

subsection \<open>Dependencies and provides\<close>

definition dep_type_selected :: "dep_type \<Rightarrow> dep \<Rightarrow> bool" where
  "dep_type_selected type d =
     (type = dep_kind d \<or> (type = Depends \<and> dep_kind d = PreDepends))"

text \<open>
  \<^verbatim>\<open>pkg_dep_matcher\<close>. The arguments \<open>f\<close> and \<open>g\<close> stand for
  \<^verbatim>\<open>pattern->matches(pkg, ver, ...)\<close> and \<^verbatim>\<open>pattern->get_match(pkg, ver, ...)\<close>.
\<close>

definition dep_matches ::
  "catalog \<Rightarrow> dep_type \<Rightarrow> bool \<Rightarrow> (pkg \<Rightarrow> ver option \<Rightarrow> bool eval) \<Rightarrow> ver option \<Rightarrow> bool eval" where
  "dep_matches cat type broken f v =
     (case v of
        None \<Rightarrow> Inr False
      | Some w \<Rightarrow>
          any_of
            (\<lambda>d. if dep_type_selected type d then
                    (if broken \<and> dep_group_ginstall d then Inr False
                     else or_else
                       (if version_list cat (dep_target_pkg d) = [] then f (dep_target_pkg d) None
                        else Inr False)
                       (any_of
                          (\<lambda>i. if check_dep cat (ver_str (version_of cat i)) (dep_compare_op d)
                                     (dep_target_ver d)
                                then f (dep_target_pkg d) (Some i) else Inr False)
                          (version_list cat (dep_target_pkg d))))
                  else Inr False)
            (ver_depends_list (version_of cat w)))"

definition dep_get_match ::
  "catalog \<Rightarrow> dep_type \<Rightarrow> bool \<Rightarrow> (pkg \<Rightarrow> ver option \<Rightarrow> pkg_match_result option eval)
   \<Rightarrow> ver option \<Rightarrow> pkg_match_result option eval" where
  "dep_get_match cat type broken g v =
     (case v of
        None \<Rightarrow> Inr None
      | Some w \<Rightarrow>
          first_of
            (\<lambda>d. if dep_type_selected type d then
                    (if broken \<and> dep_group_ginstall d then Inr None
                     else or_else_match
                       (paired_with
                          (if version_list cat (dep_target_pkg d) = [] then g (dep_target_pkg d) None
                           else Inr None)
                          (dep_match d))
                       (first_of
                          (\<lambda>i. if check_dep cat (ver_str (version_of cat i)) (dep_compare_op d)
                                     (dep_target_ver d)
                                then paired_with (g (dep_target_pkg d) (Some i)) (dep_match d)
                                else Inr None)
                          (version_list cat (dep_target_pkg d))))
                  else Inr None)
            (ver_depends_list (version_of cat w)))"

text \<open>\<^verbatim>\<open>pkg_revdep_matcher\<close>: the direct reverse dependencies, then those on the
  packages the version provides.\<close>

definition revdep_version_ok :: "catalog \<Rightarrow> ver option \<Rightarrow> dep \<Rightarrow> bool" where
  "revdep_version_ok cat v d =
     (case dep_target_ver d of
        None \<Rightarrow> True
      | Some tv \<Rightarrow>
          (case v of
             None \<Rightarrow> False
           | Some w \<Rightarrow> check_dep cat (ver_str (version_of cat w)) (dep_compare_op d) (Some tv)))"

definition revdep_matches ::
  "catalog \<Rightarrow> dep_type \<Rightarrow> bool \<Rightarrow> (pkg \<Rightarrow> ver option \<Rightarrow> bool eval) \<Rightarrow> pkg \<Rightarrow> ver option
   \<Rightarrow> bool eval" where
  "revdep_matches cat type broken f p v =
     or_else
       (any_of
          (\<lambda>d. if broken \<and> dep_group_ginstall d then Inr False
                else if dep_type_selected type d \<and> revdep_version_ok cat v d
                then f (dep_parent_pkg d) (Some (dep_parent_ver d)) else Inr False)
          (pkg_rev_depends_list (package_of cat p)))
       (case v of
          None \<Rightarrow> Inr False
        | Some w \<Rightarrow>
            any_of
              (\<lambda>pr. any_of
                 (\<lambda>d. if broken \<and> dep_group_ginstall d then Inr False
                       else if dep_kind d = type \<and> dep_target_ver d = None
                       then f (dep_parent_pkg d) (Some (dep_parent_ver d)) else Inr False)
                 (pkg_rev_depends_list (package_of cat (prv_parent_pkg pr))))
              (ver_provides_list (version_of cat w)))"

definition revdep_get_match ::
  "catalog \<Rightarrow> dep_type \<Rightarrow> bool \<Rightarrow> (pkg \<Rightarrow> ver option \<Rightarrow> pkg_match_result option eval) \<Rightarrow> pkg
   \<Rightarrow> ver option \<Rightarrow> pkg_match_result option eval" where
  "revdep_get_match cat type broken g p v =
     or_else_match
       (first_of
          (\<lambda>d. if broken \<and> dep_group_ginstall d then Inr None
                else if dep_type_selected type d \<and> revdep_version_ok cat v d
                then paired_with (g (dep_parent_pkg d) (Some (dep_parent_ver d))) (dep_match d)
                else Inr None)
          (pkg_rev_depends_list (package_of cat p)))
       (case v of
          None \<Rightarrow> Inr None
        | Some w \<Rightarrow>
            first_of
              (\<lambda>pr. first_of
                 (\<lambda>d. if dep_kind d = type \<and> dep_target_ver d = None then
                         (if broken \<and> dep_group_ginstall d then Inr None
                          else paired_with (g (dep_parent_pkg d) (Some (dep_parent_ver d)))
                                 (dep_match d))
                       else Inr None)
                 (pkg_rev_depends_list (package_of cat (prv_parent_pkg pr))))
              (ver_provides_list (version_of cat w)))"

text \<open>
  \<^verbatim>\<open>pkg_provides_matcher\<close>: \<^verbatim>\<open>matches\<close> asks the pattern about the provided
  package as a package (\<open>fp\<close> is \<^verbatim>\<open>pattern->matches(pkg, cache, records, stack)\<close>),
  \<^verbatim>\<open>get_match\<close> about the provided package with an end version
  (\<open>g\<close> is \<^verbatim>\<open>pattern->get_match(pkg, ver, ...)\<close>).
\<close>

definition provides_matches ::
  "catalog \<Rightarrow> (pkg \<Rightarrow> bool eval) \<Rightarrow> ver option \<Rightarrow> bool eval" where
  "provides_matches cat fp v =
     (case v of
        None \<Rightarrow> Inr False
      | Some w \<Rightarrow> any_of (\<lambda>pr. fp (prv_parent_pkg pr)) (ver_provides_list (version_of cat w)))"

definition provides_get_match ::
  "catalog \<Rightarrow> (pkg \<Rightarrow> ver option \<Rightarrow> pkg_match_result option eval) \<Rightarrow> ver option
   \<Rightarrow> pkg_match_result option eval" where
  "provides_get_match cat g v =
     (case v of
        None \<Rightarrow> Inr None
      | Some w \<Rightarrow>
          first_of (\<lambda>pr. paired_with (g (prv_parent_pkg pr) None) (Unitary_result ''Provides''))
            (ver_provides_list (version_of cat w)))"

text \<open>\<^verbatim>\<open>pkg_revprv_matcher\<close>.\<close>

definition revprv_matches ::
  "catalog \<Rightarrow> (pkg \<Rightarrow> ver option \<Rightarrow> bool eval) \<Rightarrow> pkg \<Rightarrow> bool eval" where
  "revprv_matches cat f p =
     any_of (\<lambda>pr. f (prv_owner_pkg pr) (Some (prv_owner_ver pr)))
       (pkg_provides_list (package_of cat p))"

definition revprv_get_match ::
  "catalog \<Rightarrow> (pkg \<Rightarrow> ver option \<Rightarrow> pkg_match_result option eval) \<Rightarrow> pkg
   \<Rightarrow> pkg_match_result option eval" where
  "revprv_get_match cat g p =
     first_of
       (\<lambda>pr. paired_with (g (prv_owner_pkg pr) (Some (prv_owner_ver pr)))
                (Unitary_result ''Provided by''))
       (pkg_provides_list (package_of cat p))"

section \<open>Evaluation\<close>

text \<open>
  \<open>matches\<close> is \<^verbatim>\<open>matches(pkg, ver, cache, records, stack)\<close> and \<open>matches_pkg\<close> is
  \<^verbatim>\<open>matches(pkg, cache, records, stack)\<close>; the last equation of \<open>matches_pkg\<close> is the
  inherited member, for the classes that do not override it.

  The stack is a reference parameter that only \<^verbatim>\<open>pkg_explicit_matcher\<close> changes: its
  local \<^verbatim>\<open>stack_pusher\<close> pushes one value in its constructor and pops it in its
  destructor, on return and on an exception alike. So every call leaves the stack as it
  found it, and the sub-matcher of an explicit matcher runs on the stack extended by one
  value.
\<close>

fun matches :: "catalog \<Rightarrow> matcher \<Rightarrow> pkg \<Rightarrow> ver option \<Rightarrow> match_stack \<Rightarrow> bool eval"
  and matches_pkg :: "catalog \<Rightarrow> matcher \<Rightarrow> pkg \<Rightarrow> match_stack \<Rightarrow> bool eval" where
  "matches cat (Leaf l) p v st = Inr (leaf_matches cat l p v)"
| "matches cat (Dep_matcher type pattern broken) p v st =
     dep_matches cat type broken (\<lambda>q w. matches cat pattern q w st) v"
| "matches cat (Or_matcher left right) p v st =
     or_else (matches cat left p v st) (matches cat right p v st)"
| "matches cat (And_matcher left right) p v st =
     and_then (matches cat left p v st) (matches cat right p v st)"
| "matches cat (Not_matcher child) p v st = not_of (matches cat child p v st)"
| "matches cat (Widen_matcher pattern) p v st = matches_pkg cat pattern p st"
| "matches cat (Select_matcher filter_m pattern) p v st =
     and_then (matches cat filter_m p v st) (matches cat pattern p v st)"
| "matches cat (Revdep_matcher type pattern broken) p v st =
     revdep_matches cat type broken (\<lambda>q w. matches cat pattern q w st) p v"
| "matches cat (Provides_matcher pattern) p v st =
     provides_matches cat (\<lambda>q. matches_pkg cat pattern q st) v"
| "matches cat (Revprv_matcher pattern) p v st =
     revprv_matches cat (\<lambda>q w. matches cat pattern q w st) p"
| "matches cat (All_matcher sub_matcher) p v st = matches cat sub_matcher p v st"
| "matches cat (Any_matcher sub_matcher) p v st = matches cat sub_matcher p v st"
| "matches cat (Explicit_matcher sub_matcher) p v st =
     matches cat sub_matcher p v (st @ [Version_value p v])"
| "matches cat (Bind_matcher sub_matcher variable) p v st =
     (if variable < length st then
        (case st ! variable of
           Package_value q \<Rightarrow> matches_pkg cat sub_matcher q st
         | Version_value q w \<Rightarrow> matches cat sub_matcher q w st)
      else Inl Assertion_failure)"
| "matches cat (Equal_matcher variable) p v st =
     (if variable < length st then Inr (is_match_for (st ! variable) (Version_value p v))
      else Inl Assertion_failure)"
| "matches_pkg cat (Or_matcher left right) p st =
     or_else (matches_pkg cat left p st) (matches_pkg cat right p st)"
| "matches_pkg cat (And_matcher left right) p st =
     and_then (matches_pkg cat left p st) (matches_pkg cat right p st)"
| "matches_pkg cat (Not_matcher child) p st = not_of (matches_pkg cat child p st)"
| "matches_pkg cat (Widen_matcher pattern) p st = matches_pkg cat pattern p st"
| "matches_pkg cat (All_matcher sub_matcher) p st =
     all_of (\<lambda>w. matches cat sub_matcher p (Some w) st) (version_list cat p)"
| "matches_pkg cat (Any_matcher sub_matcher) p st =
     any_of (\<lambda>w. matches cat sub_matcher p (Some w) st) (version_list cat p)"
| "matches_pkg cat (Explicit_matcher sub_matcher) p st =
     matches_pkg cat sub_matcher p (st @ [Package_value p])"
| "matches_pkg cat (Bind_matcher sub_matcher variable) p st =
     (if variable < length st then
        (case st ! variable of
           Package_value q \<Rightarrow> matches_pkg cat sub_matcher q st
         | Version_value q w \<Rightarrow> matches cat sub_matcher q w st)
      else Inl Assertion_failure)"
| "matches_pkg cat m p st =
     matches_versions (\<lambda>v. matches cat m p v st) (version_list cat p)"

text \<open>
  \<open>get_match\<close> is \<^verbatim>\<open>get_match(pkg, ver, cache, records, stack)\<close> and \<open>get_match_pkg\<close>
  is \<^verbatim>\<open>get_match(pkg, cache, records, stack)\<close>, again with the inherited member last.
\<close>

definition and_match ::
  "pkg_match_result option eval \<Rightarrow> pkg_match_result option eval \<Rightarrow> pkg_match_result option eval" where
  "and_match a b =
     (case a of
        Inl e \<Rightarrow> Inl e
      | Inr None \<Rightarrow> Inr None
      | Inr (Some r1) \<Rightarrow>
          (case b of
             Inl e \<Rightarrow> Inl e
           | Inr None \<Rightarrow> Inr None
           | Inr (Some r2) \<Rightarrow> Inr (Some (Result_pair r1 r2))))"

definition not_match :: "pkg_match_result option eval \<Rightarrow> pkg_match_result option eval" where
  "not_match a =
     (case a of
        Inl e \<Rightarrow> Inl e
      | Inr None \<Rightarrow> Inr (Some Empty_match_result)
      | Inr (Some child_match) \<Rightarrow> Inr None)"

fun get_match ::
    "catalog \<Rightarrow> matcher \<Rightarrow> pkg \<Rightarrow> ver option \<Rightarrow> match_stack \<Rightarrow> pkg_match_result option eval"
  and get_match_pkg ::
    "catalog \<Rightarrow> matcher \<Rightarrow> pkg \<Rightarrow> match_stack \<Rightarrow> pkg_match_result option eval" where
  "get_match cat (Leaf l) p v st = Inr (leaf_get_match cat l p v)"
| "get_match cat (Dep_matcher type pattern broken) p v st =
     dep_get_match cat type broken (\<lambda>q w. get_match cat pattern q w st) v"
| "get_match cat (Or_matcher left right) p v st =
     or_else_match (get_match cat left p v st) (get_match cat right p v st)"
| "get_match cat (And_matcher left right) p v st =
     and_match (get_match cat left p v st) (get_match cat right p v st)"
| "get_match cat (Not_matcher child) p v st = not_match (get_match cat child p v st)"
| "get_match cat (Widen_matcher pattern) p v st = get_match_pkg cat pattern p st"
| "get_match cat (Select_matcher filter_m pattern) p v st =
     (case matches cat filter_m p v st of
        Inl e \<Rightarrow> Inl e
      | Inr b \<Rightarrow> if b then get_match cat pattern p v st else Inr None)"
| "get_match cat (Revdep_matcher type pattern broken) p v st =
     revdep_get_match cat type broken (\<lambda>q w. get_match cat pattern q w st) p v"
| "get_match cat (Provides_matcher pattern) p v st =
     provides_get_match cat (\<lambda>q w. get_match cat pattern q w st) v"
| "get_match cat (Revprv_matcher pattern) p v st =
     revprv_get_match cat (\<lambda>q w. get_match cat pattern q w st) p"
| "get_match cat (All_matcher sub_matcher) p v st = get_match cat sub_matcher p v st"
| "get_match cat (Any_matcher sub_matcher) p v st = get_match cat sub_matcher p v st"
| "get_match cat (Explicit_matcher sub_matcher) p v st =
     get_match_pkg cat sub_matcher p (st @ [Version_value p v])"
| "get_match cat (Bind_matcher sub_matcher variable) p v st =
     (if variable < length st then
        (case st ! variable of
           Package_value q \<Rightarrow> get_match_pkg cat sub_matcher q st
         | Version_value q w \<Rightarrow> get_match cat sub_matcher q w st)
      else Inl Assertion_failure)"
| "get_match cat (Equal_matcher variable) p v st =
     (if variable < length st then
        Inr (if is_match_for (st ! variable) (Version_value p v) then Some Empty_match_result
             else None)
      else Inl Assertion_failure)"
| "get_match_pkg cat (Or_matcher left right) p st =
     or_else_match (get_match_pkg cat left p st) (get_match_pkg cat right p st)"
| "get_match_pkg cat (And_matcher left right) p st =
     and_match (get_match_pkg cat left p st) (get_match_pkg cat right p st)"
| "get_match_pkg cat (Not_matcher child) p st = not_match (get_match_pkg cat child p st)"
| "get_match_pkg cat (Widen_matcher pattern) p st = get_match_pkg cat pattern p st"
| "get_match_pkg cat (All_matcher sub_matcher) p st =
     last_of (\<lambda>w. get_match cat sub_matcher p (Some w) st) None (version_list cat p)"
| "get_match_pkg cat (Any_matcher sub_matcher) p st =
     first_of (\<lambda>w. get_match cat sub_matcher p (Some w) st) (version_list cat p)"
| "get_match_pkg cat (Explicit_matcher sub_matcher) p st =
     get_match_pkg cat sub_matcher p (st @ [Package_value p])"
| "get_match_pkg cat (Bind_matcher sub_matcher variable) p st =
     (if variable < length st then
        (case st ! variable of
           Package_value q \<Rightarrow> get_match_pkg cat sub_matcher q st
         | Version_value q w \<Rightarrow> get_match cat sub_matcher q w st)
      else Inl Assertion_failure)"
| "get_match_pkg cat m p st =
     get_match_versions (\<lambda>v. get_match cat m p v st) (version_list cat p)"

subsection \<open>The public functions\<close>

text \<open>
  \<^verbatim>\<open>apply_matcher\<close> and the free function \<^verbatim>\<open>get_match\<close>, each in its form with
  and without a version: they call the member on a new, empty \<^verbatim>\<open>match_stack\<close>.
\<close>

definition apply_matcher :: "catalog \<Rightarrow> matcher \<Rightarrow> pkg \<Rightarrow> ver option \<Rightarrow> bool eval" where
  "apply_matcher cat matcher p v = matches cat matcher p v []"

definition apply_matcher_pkg :: "catalog \<Rightarrow> matcher \<Rightarrow> pkg \<Rightarrow> bool eval" where
  "apply_matcher_pkg cat matcher p = matches_pkg cat matcher p []"

definition get_match_fresh ::
  "catalog \<Rightarrow> matcher \<Rightarrow> pkg \<Rightarrow> ver option \<Rightarrow> pkg_match_result option eval" where
  "get_match_fresh cat matcher p v = get_match cat matcher p v []"

definition get_match_pkg_fresh :: "catalog \<Rightarrow> matcher \<Rightarrow> pkg \<Rightarrow> pkg_match_result option eval" where
  "get_match_pkg_fresh cat matcher p = get_match_pkg cat matcher p []"

definition make_const_matcher :: "pkg \<Rightarrow> matcher" where
  "make_const_matcher p = Leaf (Const_matcher p)"

section \<open>The parser: characters and strings\<close>

text \<open>
  The parser moves an iterator \<^verbatim>\<open>start\<close> towards \<^verbatim>\<open>end\<close>; a parsing function of
  the model takes the text from \<^verbatim>\<open>start\<close> to \<^verbatim>\<open>end\<close> and returns the text that
  is left with its result. A \<^verbatim>\<open>CompilationException\<close> is \<open>Inl\<close> of its message.
  The character classes are those of the C locale; messages wrapped in the gettext
  macro are the untranslated ones.
\<close>

definition isspace :: "char \<Rightarrow> bool" where
  "isspace c = (c = CHR '' '' \<or> (9 \<le> (of_char c :: nat) \<and> (of_char c :: nat) \<le> 13))"

definition isalpha :: "char \<Rightarrow> bool" where
  "isalpha c =
     ((65 \<le> (of_char c :: nat) \<and> (of_char c :: nat) \<le> 90)
      \<or> (97 \<le> (of_char c :: nat) \<and> (of_char c :: nat) \<le> 122))"

definition tolower :: "char \<Rightarrow> char" where
  "tolower c =
     (if 65 \<le> (of_char c :: nat) \<and> (of_char c :: nat) \<le> 90
      then char_of ((of_char c :: nat) + 32) else c)"

definition strcasecmp_eq :: "string \<Rightarrow> string \<Rightarrow> bool" where
  \<comment> \<open>\<^verbatim>\<open>strcasecmp(a, b) == 0\<close>\<close>
  "strcasecmp_eq a b = (map tolower a = map tolower b)"

definition parse_whitespace :: "string \<Rightarrow> string" where
  "parse_whitespace s = dropWhile isspace s"

definition stripws :: "string \<Rightarrow> string" where
  \<comment> \<open>\<^verbatim>\<open>stripws\<close> of \<^verbatim>\<open>generic/util/util.h\<close>, which is not among the sources: it
     removes the white space at both ends of its argument\<close>
  "stripws s = rev (dropWhile isspace (rev (dropWhile isspace s)))"

text \<open>
  \<^verbatim>\<open>terminate\<close>: a terminator is compared with the text character by character until
  either ends or a difference is seen.
\<close>

fun terminator_matches :: "string \<Rightarrow> string \<Rightarrow> bool" where
  "terminator_matches (c # cs) (d # ds) = (if c \<noteq> d then False else terminator_matches cs ds)"
| "terminator_matches [] ds = True"
| "terminator_matches cs [] = True"

definition terminate :: "string \<Rightarrow> string list \<Rightarrow> bool" where
  "terminate s terminators = list_ex (terminator_matches s) terminators"

type_synonym 'a parsed = "string + ('a \<times> string)"

fun parse_literal_string_tail :: "string \<Rightarrow> string \<Rightarrow> string parsed" where
  "parse_literal_string_tail rval [] = Inl (''Unterminated literal string after '' @ rval)"
| "parse_literal_string_tail rval (c # cs) =
     (if c = CHR 0x22 then Inr (rval, cs)
      else if c = CHR 0x5C then
        (case cs of
           [] \<Rightarrow> Inl (''Unterminated literal string after '' @ rval)
         | d # ds \<Rightarrow>
             parse_literal_string_tail
               (rval @ [if d = CHR ''n'' then CHR 0x0A else if d = CHR ''t'' then CHR 0x09 else d])
               ds)
      else parse_literal_string_tail (rval @ [c]) cs)"

definition is_meta :: "char \<Rightarrow> bool" where
  "is_meta c =
     (c = CHR ''('' \<or> c = CHR '')'' \<or> c = CHR ''!'' \<or> c = CHR ''~'' \<or> c = CHR ''|''
      \<or> c = CHR 0x22)"

text \<open>The inner \<^verbatim>\<open>while\<close> of \<^verbatim>\<open>parse_substr\<close>: the characters taken, and the rest.\<close>

fun scan_plain :: "string list \<Rightarrow> bool \<Rightarrow> string \<Rightarrow> string \<times> string" where
  "scan_plain terminators whitespace_breaks [] = ([], [])"
| "scan_plain terminators whitespace_breaks (c # cs) =
     (if is_meta c \<or> (whitespace_breaks \<and> isspace c) \<or> terminate (c # cs) terminators
      then ([], c # cs)
      else (c # fst (scan_plain terminators whitespace_breaks cs),
            snd (scan_plain terminators whitespace_breaks cs)))"

text \<open>
  One round of the \<^verbatim>\<open>do\<close> loop of \<^verbatim>\<open>parse_substr\<close>: what it appends to
  \<^verbatim>\<open>rval\<close>, the rest, and whether the loop goes on (\<^verbatim>\<open>!done\<close>).
\<close>

definition substr_round :: "string list \<Rightarrow> bool \<Rightarrow> string \<Rightarrow> (string \<times> bool) parsed" where
  "substr_round terminators whitespace_breaks s =
     (case (case snd (scan_plain terminators whitespace_breaks s) of
              [] \<Rightarrow> Inr ([], [])
            | c # cs \<Rightarrow>
                if c = CHR 0x22 then parse_literal_string_tail [] cs else Inr ([], c # cs)) of
        Inl e \<Rightarrow> Inl e
      | Inr (lit, s2) \<Rightarrow>
          (case s2 of
             c # next # s3 \<Rightarrow>
               if c = CHR ''~'' then
                 (if is_meta next \<or> (whitespace_breaks \<and> isspace next)
                  then Inr ((fst (scan_plain terminators whitespace_breaks s) @ lit @ [next], True), s3)
                  else Inr ((fst (scan_plain terminators whitespace_breaks s) @ lit, False), s2))
               else Inr ((fst (scan_plain terminators whitespace_breaks s) @ lit, False), s2)
           | _ \<Rightarrow> Inr ((fst (scan_plain terminators whitespace_breaks s) @ lit, False), s2)))"

lemma scan_plain_length: "length (snd (scan_plain ts wb s)) \<le> length s"
  by (induction s) auto

lemma parse_literal_string_tail_length:
  "parse_literal_string_tail rval s = Inr (lit, s2) \<Longrightarrow> length s2 < length s"
proof (induction rval s rule: parse_literal_string_tail.induct)
  case (1 rval)
  then show ?case by simp
next
  case (2 rval c cs)
  then show ?case
    by (cases cs) (auto split: if_splits)
qed

lemma substr_round_length:
  assumes "substr_round ts wb s = Inr ((piece, True), rest)"
  shows "length rest < length s"
proof -
  have le: "length (snd (scan_plain ts wb s)) \<le> length s"
    by (rule scan_plain_length)
  show ?thesis
  proof (cases "snd (scan_plain ts wb s)")
    case Nil
    with assms show ?thesis
      by (simp add: substr_round_def)
  next
    case (Cons c cs)
    show ?thesis
    proof (cases "c = CHR 0x22")
      case True
      with assms Cons obtain lit s2 where
        lit: "parse_literal_string_tail [] cs = Inr (lit, s2)"
        by (auto simp: substr_round_def split: sum.splits)
      from parse_literal_string_tail_length [OF lit] have "length s2 < length cs" .
      moreover from assms Cons True lit have "length rest < length s2"
        by (auto simp: substr_round_def split: list.splits if_splits)
      ultimately show ?thesis using le Cons by simp
    next
      case False
      with assms Cons have "length rest < length (c # cs)"
        by (auto simp: substr_round_def split: list.splits if_splits)
      then show ?thesis using le Cons by simp
    qed
  qed
qed

function parse_substr_loop :: "string list \<Rightarrow> bool \<Rightarrow> string \<Rightarrow> string \<Rightarrow> string parsed" where
  "parse_substr_loop terminators whitespace_breaks rval s =
     (case substr_round terminators whitespace_breaks s of
        Inl e \<Rightarrow> Inl e
      | Inr ((piece, again), rest) \<Rightarrow>
          if again then parse_substr_loop terminators whitespace_breaks (rval @ piece) rest
          else Inr (rval @ piece, rest))"
  by pat_completeness auto
termination
  by (relation "measure (\<lambda>(ts, wb, rval, s). length s)") (auto dest: substr_round_length)

definition parse_substr :: "string \<Rightarrow> string list \<Rightarrow> bool \<Rightarrow> string parsed" where
  "parse_substr s terminators whitespace_breaks =
     parse_substr_loop terminators whitespace_breaks [] (dropWhile isspace s)"

section \<open>The parser: what it builds\<close>

text \<open>
  What the parser reads from outside \<^verbatim>\<open>matchers.cc\<close>: whether the C library's
  \<^verbatim>\<open>regcomp\<close> accepts a pattern (\<open>Some\<close> of the \<^verbatim>\<open>regerror\<close> text when it does
  not), and the priority names of the open cache (\<open>None\<close> when \<^verbatim>\<open>apt_cache_file\<close>
  is null).
\<close>

record host =
  regcomp_error :: "string \<Rightarrow> string option"
  cache_priority :: "(ver_priority \<Rightarrow> string) option"

text \<open>The constructor of \<^verbatim>\<open>pkg_string_matcher\<close>, for the derived class \<open>ctor\<close>.\<close>

definition pkg_string_matcher :: "host \<Rightarrow> (string \<Rightarrow> leaf) \<Rightarrow> string \<Rightarrow> string + matcher" where
  "pkg_string_matcher h ctor pat =
     (case regcomp_error h (compiled_pattern pat) of
        Some msg \<Rightarrow> Inl (''Regex compilation error: '' @ msg)
      | None \<Rightarrow> Inr (Leaf (ctor (compiled_pattern pat))))"

definition make_package_version_matcher :: "host \<Rightarrow> string \<Rightarrow> string + matcher" where
  "make_package_version_matcher h substr =
     (if substr = ''CURRENT'' then Inr (Leaf Curr_version_matcher)
      else if substr = ''TARGET'' then Inr (Leaf Inst_version_matcher)
      else if substr = ''CANDIDATE'' then Inr (Leaf Cand_version_matcher)
      else pkg_string_matcher h Version_matcher substr)"

text \<open>\<^verbatim>\<open>parse_deptype\<close> returns \<^verbatim>\<open>(DepType) -1\<close> for an unknown name: \<open>None\<close>.\<close>

definition parse_deptype :: "string \<Rightarrow> dep_type option" where
  "parse_deptype s =
     (if strcasecmp_eq s ''depends'' then Some Depends
      else if strcasecmp_eq s ''predepends'' then Some PreDepends
      else if strcasecmp_eq s ''recommends'' then Some Recommends
      else if strcasecmp_eq s ''suggests'' then Some Suggests
      else if strcasecmp_eq s ''conflicts'' then Some Conflicts
      else if strcasecmp_eq s ''breaks'' then Some DpkgBreaks
      else if strcasecmp_eq s ''replaces'' then Some Replaces
      else None)"

definition make_action_matcher :: "string \<Rightarrow> string + matcher" where
  "make_action_matcher action_str =
     (if strcasecmp_eq action_str ''install'' then Inr (Leaf (Action_matcher pkg_install False))
      else if strcasecmp_eq action_str ''upgrade'' then Inr (Leaf (Action_matcher pkg_upgrade False))
      else if strcasecmp_eq action_str ''downgrade'' then Inr (Leaf (Action_matcher pkg_downgrade False))
      else if strcasecmp_eq action_str ''remove'' then Inr (Leaf (Action_matcher pkg_remove False))
      else if strcasecmp_eq action_str ''purge'' then Inr (Leaf (Action_matcher pkg_remove True))
      else if strcasecmp_eq action_str ''reinstall'' then Inr (Leaf (Action_matcher pkg_reinstall False))
      else if strcasecmp_eq action_str ''hold'' then Inr (Leaf (Action_matcher pkg_hold False))
      else if strcasecmp_eq action_str ''keep'' then Inr (Leaf Keep_matcher)
      else Inl (''Unknown action type: '' @ action_str))"

definition priority_named :: "host \<Rightarrow> string \<Rightarrow> string \<Rightarrow> ver_priority \<Rightarrow> bool" where
  "priority_named h s english level =
     (strcasecmp_eq s english
      \<or> (case cache_priority h of None \<Rightarrow> False | Some names \<Rightarrow> strcasecmp_eq s (names level)))"

definition parse_priority :: "host \<Rightarrow> string \<Rightarrow> string + ver_priority" where
  "parse_priority h substr =
     (if priority_named h substr ''important'' Important then Inr Important
      else if priority_named h substr ''required'' Required then Inr Required
      else if priority_named h substr ''standard'' Standard then Inr Standard
      else if priority_named h substr ''optional'' Optional then Inr Optional
      else if priority_named h substr ''extra'' Extra then Inr Extra
      else Inl (''Unknown priority '' @ substr))"

definition parse_required_character :: "string \<Rightarrow> char \<Rightarrow> string + string" where
  "parse_required_character s c =
     (case dropWhile isspace s of
        [] \<Rightarrow> Inl (''Match pattern ends unexpectedly (expected '' @ [CHR 0x27, c, CHR 0x27] @ '').'')
      | d # ds \<Rightarrow>
          if d \<noteq> c then Inl (''Expected '' @ [CHR 0x27, c, CHR 0x27] @ '', got '' @ [CHR 0x27, d, CHR 0x27] @ ''.'')
          else Inr ds)"

definition parse_open_paren :: "string \<Rightarrow> string + string" where
  "parse_open_paren s = parse_required_character s CHR ''(''"

definition parse_close_paren :: "string \<Rightarrow> string + string" where
  "parse_close_paren s = parse_required_character s CHR '')''"

definition parse_comma :: "string \<Rightarrow> string + string" where
  "parse_comma s = parse_required_character s CHR '',''"

definition parse_string_match_args :: "string \<Rightarrow> string parsed" where
  "parse_string_match_args s =
     (case parse_open_paren s of
        Inl e \<Rightarrow> Inl e
      | Inr s1 \<Rightarrow>
          (case parse_substr s1 [] False of
             Inl e \<Rightarrow> Inl e
           | Inr (substr, s2) \<Rightarrow>
               (case parse_close_paren s2 of
                  Inl e \<Rightarrow> Inl e
                | Inr s3 \<Rightarrow> Inr (substr, s3))))"

definition add_new_terminator :: "string \<Rightarrow> string list \<Rightarrow> string list" where
  "add_new_terminator new_terminator terminators =
     (if new_terminator \<in> set terminators then terminators else terminators @ [new_terminator])"

subsection \<open>The environment of bound variables\<close>

text \<open>
  Modelled from the spec: \<^verbatim>\<open>parse_environment\<close> is \<^verbatim>\<open>imm::map<std::string, int>\<close>
  of \<^verbatim>\<open>generic/util/immset.h\<close>, which is not among the sources. It is an immutable
  map from variable names to De-Bruijn indices with its size: \<open>env_bind\<close> is
  \<^verbatim>\<open>parse_environment::bind\<close>, which yields the map with one binding added or
  replaced, \<open>env_get\<close> is \<^verbatim>\<open>get(name, -1)\<close> with \<open>None\<close> for \<^verbatim>\<open>-1\<close>, and
  \<open>env_size\<close> is \<^verbatim>\<open>size()\<close>, the number of names bound.
\<close>

type_synonym parse_environment = "(string \<times> nat) list"

definition env_get :: "parse_environment \<Rightarrow> string \<Rightarrow> nat option" where
  "env_get name_context name = map_of name_context name"

definition env_bind :: "parse_environment \<Rightarrow> string \<Rightarrow> nat \<Rightarrow> parse_environment" where
  "env_bind name_context name idx = (name, idx) # filter (\<lambda>b. fst b \<noteq> name) name_context"

definition env_size :: "parse_environment \<Rightarrow> nat" where
  "env_size name_context = length name_context"

definition get_variable_index :: "string \<Rightarrow> parse_environment \<Rightarrow> string + nat" where
  "get_variable_index bound_variable name_context =
     (case env_get name_context bound_variable of
        None \<Rightarrow> Inl (''Unknown variable '' @ [CHR 0x22] @ bound_variable @ [CHR 0x22] @ ''.'')
      | Some idx \<Rightarrow> Inr idx)"

definition maybe_bind :: "string \<Rightarrow> matcher \<Rightarrow> parse_environment \<Rightarrow> string + matcher" where
  "maybe_bind bound_variable m name_context =
     (if bound_variable = [] then Inr m
      else (case get_variable_index bound_variable name_context of
              Inl e \<Rightarrow> Inl e
            | Inr idx \<Rightarrow> Inr (Bind_matcher m idx)))"

subsection \<open>Names of function-style matchers\<close>

datatype matcher_type =
  matcher_type_action | matcher_type_all | matcher_type_and | matcher_type_any
  | matcher_type_archive | matcher_type_automatic | matcher_type_bind | matcher_type_broken
  | matcher_type_config_files | matcher_type_description | matcher_type_essential
  | matcher_type_false | matcher_type_for | matcher_type_garbage | matcher_type_installed
  | matcher_type_maintainer | matcher_type_name | matcher_type_narrow | matcher_type_new
  | matcher_type_not | matcher_type_obsolete | matcher_type_or | matcher_type_origin
  | matcher_type_priority | matcher_type_provides | matcher_type_section
  | matcher_type_source_package | matcher_type_source_version | matcher_type_tag
  | matcher_type_task | matcher_type_true | matcher_type_upgradable | matcher_type_user_tag
  | matcher_type_version | matcher_type_virtual | matcher_type_widen

definition matcher_types :: "(string \<times> matcher_type) list" where
  "matcher_types =
     [(''action'', matcher_type_action), (''all-versions'', matcher_type_all),
      (''and'', matcher_type_and), (''any-version'', matcher_type_any),
      (''archive'', matcher_type_archive), (''automatic'', matcher_type_automatic),
      (''bind'', matcher_type_bind), (''broken'', matcher_type_broken),
      (''config-files'', matcher_type_config_files), (''description'', matcher_type_description),
      (''essential'', matcher_type_essential), (''false'', matcher_type_false),
      (''for'', matcher_type_for), (''garbage'', matcher_type_garbage),
      (''installed'', matcher_type_installed), (''maintainer'', matcher_type_maintainer),
      (''name'', matcher_type_name), (''narrow'', matcher_type_narrow),
      (''new'', matcher_type_new), (''not'', matcher_type_not),
      (''obsolete'', matcher_type_obsolete), (''or'', matcher_type_or),
      (''origin'', matcher_type_origin), (''priority'', matcher_type_priority),
      (''provides'', matcher_type_provides), (''section'', matcher_type_section),
      (''source-package'', matcher_type_source_package),
      (''source-version'', matcher_type_source_version), (''tag'', matcher_type_tag),
      (''task'', matcher_type_task), (''true'', matcher_type_true),
      (''upgradable'', matcher_type_upgradable), (''user-tag'', matcher_type_user_tag),
      (''version'', matcher_type_version), (''virtual'', matcher_type_virtual),
      (''widen'', matcher_type_widen)]"

text \<open>The sequential scan of \<^verbatim>\<open>matcher_types\<close> in \<^verbatim>\<open>parse_matcher_args\<close>.\<close>

definition find_matcher_type :: "string \<Rightarrow> matcher_type option" where
  "find_matcher_type matcher_name = map_of matcher_types matcher_name"

text \<open>
  The prefixes \<^verbatim>\<open>broken-\<close> and \<^verbatim>\<open>reverse-\<close> of a matcher name, in either order:
  \<^verbatim>\<open>broken\<close>, \<^verbatim>\<open>reverse\<close> and \<^verbatim>\<open>suffix\<close> of \<^verbatim>\<open>parse_matcher_args\<close>.
\<close>

definition dep_name_parts :: "string \<Rightarrow> bool \<times> bool \<times> string" where
  "dep_name_parts matcher_name =
     (if take 7 matcher_name = ''broken-'' then
        (if take 8 (drop 7 matcher_name) = ''reverse-'' then (True, True, drop 15 matcher_name)
         else (True, False, drop 7 matcher_name))
      else if take 8 matcher_name = ''reverse-'' then
        (if take 7 (drop 8 matcher_name) = ''broken-'' then (True, True, drop 15 matcher_name)
         else (False, True, drop 8 matcher_name))
      else (False, False, matcher_name))"

text \<open>
  \<^verbatim>\<open>while(start != end && isspace(*start) && !terminate(start, end, terminators))\<close>
\<close>

fun skip_space_unterminated :: "string list \<Rightarrow> string \<Rightarrow> string" where
  "skip_space_unterminated terminators [] = []"
| "skip_space_unterminated terminators (c # cs) =
     (if isspace c \<and> \<not> terminate (c # cs) terminators
      then skip_space_unterminated terminators cs else c # cs)"

subsection \<open>Matchers without a sub-matcher\<close>

definition with_string_args :: "(string \<Rightarrow> string + matcher) \<Rightarrow> string \<Rightarrow> matcher parsed" where
  "with_string_args mk s =
     (case parse_string_match_args s of
        Inl e \<Rightarrow> Inl e
      | Inr (substr, s1) \<Rightarrow> (case mk substr of Inl e \<Rightarrow> Inl e | Inr m \<Rightarrow> Inr (m, s1)))"

definition make_priority_matcher :: "host \<Rightarrow> string \<Rightarrow> string + matcher" where
  "make_priority_matcher h substr =
     (case parse_priority h substr of
        Inl e \<Rightarrow> Inl e
      | Inr level \<Rightarrow> Inr (Leaf (Priority_matcher level)))"

text \<open>
  The cases of the \<^verbatim>\<open>switch(type)\<close> of \<^verbatim>\<open>parse_matcher_args\<close> that do not parse a
  sub-matcher. The last equation is the \<^verbatim>\<open>default\<close> label, whose message prints the
  number of the type in the source; the types with a sub-matcher are handled before this
  function is reached.
\<close>

fun leaf_matcher_args :: "host \<Rightarrow> matcher_type \<Rightarrow> string \<Rightarrow> matcher parsed" where
  "leaf_matcher_args h matcher_type_action s = with_string_args make_action_matcher s"
| "leaf_matcher_args h matcher_type_archive s =
     with_string_args (pkg_string_matcher h Archive_matcher) s"
| "leaf_matcher_args h matcher_type_automatic s = Inr (Leaf Auto_matcher, s)"
| "leaf_matcher_args h matcher_type_broken s = Inr (Leaf Broken_matcher, s)"
| "leaf_matcher_args h matcher_type_config_files s = Inr (Leaf Configfiles_matcher, s)"
| "leaf_matcher_args h matcher_type_description s =
     with_string_args (pkg_string_matcher h Description_matcher) s"
| "leaf_matcher_args h matcher_type_essential s = Inr (Leaf Essential_matcher, s)"
| "leaf_matcher_args h matcher_type_false s = Inr (Leaf False_matcher, s)"
| "leaf_matcher_args h matcher_type_garbage s = Inr (Leaf Garbage_matcher, s)"
| "leaf_matcher_args h matcher_type_installed s = Inr (Leaf Installed_matcher, s)"
| "leaf_matcher_args h matcher_type_maintainer s =
     with_string_args (pkg_string_matcher h Maintainer_matcher) s"
| "leaf_matcher_args h matcher_type_name s =
     with_string_args (pkg_string_matcher h Name_matcher) s"
| "leaf_matcher_args h matcher_type_new s = Inr (Leaf New_matcher, s)"
| "leaf_matcher_args h matcher_type_obsolete s = Inr (Leaf Obsolete_matcher, s)"
| "leaf_matcher_args h matcher_type_origin s =
     with_string_args (pkg_string_matcher h Origin_matcher) s"
| "leaf_matcher_args h matcher_type_priority s = with_string_args (make_priority_matcher h) s"
| "leaf_matcher_args h matcher_type_section s =
     with_string_args (pkg_string_matcher h Section_matcher) s"
| "leaf_matcher_args h matcher_type_source_package s =
     with_string_args (pkg_string_matcher h Source_package_matcher) s"
| "leaf_matcher_args h matcher_type_source_version s =
     with_string_args (pkg_string_matcher h Source_version_matcher) s"
| "leaf_matcher_args h matcher_type_tag s =
     with_string_args (pkg_string_matcher h Tag_matcher) s"
| "leaf_matcher_args h matcher_type_task s =
     with_string_args (pkg_string_matcher h Task_matcher) s"
| "leaf_matcher_args h matcher_type_true s = Inr (Leaf True_matcher, s)"
| "leaf_matcher_args h matcher_type_upgradable s = Inr (Leaf Upgradable_matcher, s)"
| "leaf_matcher_args h matcher_type_user_tag s =
     with_string_args (pkg_string_matcher h User_tag_matcher) s"
| "leaf_matcher_args h matcher_type_version s =
     with_string_args (make_package_version_matcher h) s"
| "leaf_matcher_args h matcher_type_virtual s = Inr (Leaf Virtual_matcher, s)"
| "leaf_matcher_args h type s = Inl ''Unexpected matcher type encountered.''"

text \<open>The short forms \<^verbatim>\<open>~v\<close>, \<^verbatim>\<open>~b\<close>, ... that take no argument.\<close>

definition short_form_flag :: "char \<Rightarrow> matcher option" where
  "short_form_flag search_flag =
     (if search_flag = CHR ''v'' then Some (Leaf Virtual_matcher)
      else if search_flag = CHR ''b'' then Some (Leaf Broken_matcher)
      else if search_flag = CHR ''g'' then Some (Leaf Garbage_matcher)
      else if search_flag = CHR ''c'' then Some (Leaf Configfiles_matcher)
      else if search_flag = CHR ''i'' then Some (Leaf Installed_matcher)
      else if search_flag = CHR ''E'' then Some (Leaf Essential_matcher)
      else if search_flag = CHR ''M'' then Some (Leaf Auto_matcher)
      else if search_flag = CHR ''N'' then Some (Leaf New_matcher)
      else if search_flag = CHR ''U'' then Some (Leaf Upgradable_matcher)
      else if search_flag = CHR ''o'' then Some (Leaf Obsolete_matcher)
      else None)"

text \<open>The \<^verbatim>\<open>default\<close> label of the short forms: those with a string argument.\<close>

definition short_form_matcher :: "host \<Rightarrow> char \<Rightarrow> string \<Rightarrow> string + matcher" where
  "short_form_matcher h search_flag substr =
     (if search_flag = CHR ''a'' then make_action_matcher substr
      else if search_flag = CHR ''A'' then pkg_string_matcher h Archive_matcher substr
      else if search_flag = CHR ''B'' then
        (case parse_deptype substr of
           Some ptype \<Rightarrow> Inr (Leaf (Broken_type_matcher ptype))
         | None \<Rightarrow> Inl (''Unknown dependency type: '' @ substr))
      else if search_flag = CHR ''d'' then pkg_string_matcher h Description_matcher substr
      else if search_flag = CHR ''G'' then pkg_string_matcher h Tag_matcher substr
      else if search_flag = CHR ''F'' then Inr (Leaf False_matcher)
      else if search_flag = CHR ''m'' then pkg_string_matcher h Maintainer_matcher substr
      else if search_flag = CHR ''n'' then pkg_string_matcher h Name_matcher substr
      else if search_flag = CHR ''O'' then pkg_string_matcher h Origin_matcher substr
      else if search_flag = CHR ''p'' then make_priority_matcher h substr
      else if search_flag = CHR ''s'' then pkg_string_matcher h Section_matcher substr
      else if search_flag = CHR ''t'' then pkg_string_matcher h Task_matcher substr
      else if search_flag = CHR ''T'' then Inr (Leaf True_matcher)
      else if search_flag = CHR ''V'' then make_package_version_matcher h substr
      else Inl (''Unknown pattern type: '' @ [search_flag]))"

text \<open>A bare string: a name matcher, or a name or description matcher.\<close>

definition name_or_description :: "host \<Rightarrow> bool \<Rightarrow> string \<Rightarrow> string \<Rightarrow> string + matcher" where
  "name_or_description h search_descriptions name_pat desc_pat =
     (case pkg_string_matcher h Name_matcher name_pat of
        Inl e \<Rightarrow> Inl e
      | Inr name \<Rightarrow>
          if \<not> search_descriptions then Inr name
          else (case pkg_string_matcher h Description_matcher desc_pat of
                  Inl e \<Rightarrow> Inl e
                | Inr desc \<Rightarrow> Inr (Or_matcher name desc)))"

subsection \<open>Variable and matcher names\<close>

definition is_name_stop :: "char \<Rightarrow> bool" where
  "is_name_stop c =
     (c = CHR ''('' \<or> c = CHR ''!'' \<or> c = CHR ''|'' \<or> c = CHR '')'' \<or> c = CHR ''?''
      \<or> c = CHR ''~'')"

text \<open>The loop that reads \<^verbatim>\<open>bound_variable\<close> after \<^verbatim>\<open>?=\<close> and after \<^verbatim>\<open>?for\<close>.\<close>

fun scan_variable :: "string list \<Rightarrow> string \<Rightarrow> string \<times> string" where
  "scan_variable terminators [] = ([], [])"
| "scan_variable terminators (c # cs) =
     (if is_name_stop c \<or> c = CHR '':'' \<or> isspace c \<or> terminate (c # cs) terminators
      then ([], c # cs)
      else (c # fst (scan_variable terminators cs), snd (scan_variable terminators cs)))"

text \<open>
  The loop of \<^verbatim>\<open>parse_function_style_matcher_tail\<close> that reads the matcher name and
  an optional variable before a colon; the result is \<^verbatim>\<open>lower_case_name\<close> and
  \<^verbatim>\<open>bound_variable\<close>.
\<close>

fun scan_matcher_name ::
  "string list \<Rightarrow> string \<Rightarrow> string \<Rightarrow> string \<Rightarrow> string \<Rightarrow> (string \<times> string) parsed" where
  "scan_matcher_name terminators raw_name lower_case_name bound_variable [] =
     Inr ((lower_case_name, bound_variable), [])"
| "scan_matcher_name terminators raw_name lower_case_name bound_variable (c # cs) =
     (if is_name_stop c \<or> isspace c \<or> terminate (c # cs) terminators
      then Inr ((lower_case_name, bound_variable), c # cs)
      else if c = CHR '':'' then
        (if bound_variable \<noteq> []
         then Inl (''Unexpected ':' following '' @ [CHR 0x22] @ ''?'' @ bound_variable @ '':''
                   @ raw_name @ [CHR 0x22] @ ''.'')
         else scan_matcher_name terminators [] [] (map tolower raw_name) cs)
      else scan_matcher_name terminators (raw_name @ [c]) (lower_case_name @ [tolower c])
             bound_variable cs)"

section \<open>The parser: sub-matchers\<close>

text \<open>
  \<^verbatim>\<open>parse_atom\<close>, \<^verbatim>\<open>parse_and_group\<close> and \<^verbatim>\<open>parse_condition_list\<close> call each
  other, directly and through the functions that parse the arguments of a matcher. Each
  of the latter is defined here with a parameter \<open>plist\<close> in the place of
  \<^verbatim>\<open>parse_condition_list\<close> (and \<open>patom\<close> in the place of \<^verbatim>\<open>parse_atom\<close>); the
  parameter takes the text, the terminators, \<^verbatim>\<open>wide_context\<close> and
  \<^verbatim>\<open>name_context\<close>, the arguments that change from call to call. The recursion is
  closed below with a bound on its depth, and a result \<open>None\<close> says that the bound was
  reached.
\<close>

type_synonym sub_parser =
  "string \<Rightarrow> string list \<Rightarrow> bool \<Rightarrow> parse_environment \<Rightarrow> matcher parsed option"

definition then_parse :: "'a parsed option \<Rightarrow> ('a \<Rightarrow> string \<Rightarrow> 'b parsed option) \<Rightarrow> 'b parsed option" where
  "then_parse r k =
     (case r of
        None \<Rightarrow> None
      | Some (Inl e) \<Rightarrow> Some (Inl e)
      | Some (Inr (x, s)) \<Rightarrow> k x s)"

definition after_char :: "string + string \<Rightarrow> (string \<Rightarrow> 'b parsed option) \<Rightarrow> 'b parsed option" where
  "after_char r k = (case r of Inl e \<Rightarrow> Some (Inl e) | Inr s \<Rightarrow> k s)"

definition built :: "string + 'a \<Rightarrow> string \<Rightarrow> 'a parsed option" where
  "built r s = (case r of Inl e \<Rightarrow> Some (Inl e) | Inr m \<Rightarrow> Some (Inr (m, s)))"

definition parse_pkg_matcher_args :: "sub_parser \<Rightarrow> sub_parser" where
  "parse_pkg_matcher_args plist s terminators wide_context name_context =
     after_char (parse_open_paren s)
       (\<lambda>s1. then_parse (plist s1 terminators wide_context name_context)
          (\<lambda>m s2. after_char (parse_close_paren s2) (\<lambda>s3. Some (Inr (m, s3)))))"

definition parse_optional_pkg_matcher_args ::
  "sub_parser \<Rightarrow> string \<Rightarrow> string list \<Rightarrow> bool \<Rightarrow> parse_environment
   \<Rightarrow> (matcher option) parsed option" where
  "parse_optional_pkg_matcher_args plist s terminators wide_context name_context =
     (case dropWhile isspace s of
        [] \<Rightarrow> Some (Inr (None, []))
      | c # cs \<Rightarrow>
          if c = CHR ''('' then
            then_parse (parse_pkg_matcher_args plist (c # cs) terminators wide_context name_context)
              (\<lambda>m s1. Some (Inr (Some m, s1)))
          else Some (Inr (None, c # cs)))"

text \<open>\<^verbatim>\<open>parse_unary_matcher<T, pkg_matcher_real *>\<close>, for the class built by \<open>ctor\<close>.\<close>

definition parse_unary_matcher :: "sub_parser \<Rightarrow> (matcher \<Rightarrow> matcher) \<Rightarrow> sub_parser" where
  "parse_unary_matcher plist ctor s terminators wide_context name_context =
     after_char (parse_open_paren s)
       (\<lambda>s1. then_parse (plist s1 terminators wide_context name_context)
          (\<lambda>a1 s2. after_char (parse_close_paren s2) (\<lambda>s3. Some (Inr (ctor a1, s3)))))"

text \<open>\<^verbatim>\<open>parse_binary_matcher<T, pkg_matcher_real *, pkg_matcher_real *>\<close>.\<close>

definition parse_binary_matcher ::
  "sub_parser \<Rightarrow> (matcher \<Rightarrow> matcher \<Rightarrow> matcher) \<Rightarrow> sub_parser" where
  "parse_binary_matcher plist ctor s terminators wide_context name_context =
     after_char (parse_open_paren s)
       (\<lambda>s1. then_parse
          (plist s1 (add_new_terminator '','' terminators) wide_context name_context)
          (\<lambda>a1 s2. after_char (parse_comma s2)
             (\<lambda>s3. then_parse (plist s3 terminators wide_context name_context)
                (\<lambda>a2 s4. after_char (parse_close_paren s4)
                   (\<lambda>s5. Some (Inr (ctor a1 a2, s5)))))))"

definition expected_colon :: "string \<Rightarrow> string" where
  "expected_colon bound_variable =
     bound_variable @ '' (expected '' @ [CHR 0x22] @ '':'' @ [CHR 0x22]
     @ '' followed by a search term).''"

definition parse_explicit_matcher :: "sub_parser \<Rightarrow> string \<Rightarrow> sub_parser" where
  "parse_explicit_matcher plist matcher_name s terminators wide_context name_context =
     (case parse_whitespace (snd (scan_variable terminators (parse_whitespace s))) of
        [] \<Rightarrow>
          Some (Inl (''Unexpected end of pattern following ?'' @ matcher_name @ '' ''
                     @ expected_colon (fst (scan_variable terminators (parse_whitespace s)))))
      | c # cs \<Rightarrow>
          if c \<noteq> CHR '':'' then
            Some (Inl (''Unexpected '' @ [CHR 0x27, c, CHR 0x27] @ '' following ?'' @ matcher_name
                       @ '' '' @ expected_colon (fst (scan_variable terminators (parse_whitespace s)))))
          else
            then_parse
              (plist (parse_whitespace cs) terminators wide_context
                 (env_bind name_context
                    (map tolower (fst (scan_variable terminators (parse_whitespace s))))
                    (env_size name_context)))
              (\<lambda>m s1. Some (Inr (Explicit_matcher m, s1))))"

definition wide_context_required :: "string \<Rightarrow> string" where
  "wide_context_required matcher_name =
     ''The ?'' @ matcher_name @ '' matcher must be used in a '' @ [CHR 0x22] @ ''wide''
     @ [CHR 0x22] @ '' context (a top-level context, or a context enclosed by ?widen).''"

text \<open>The case \<^verbatim>\<open>matcher_type_bind\<close> of \<^verbatim>\<open>parse_matcher_args\<close>.\<close>

definition parse_bind_args :: "sub_parser \<Rightarrow> string \<Rightarrow> bool \<Rightarrow> parse_environment \<Rightarrow> matcher parsed option" where
  "parse_bind_args plist s wide_context name_context =
     after_char (parse_open_paren (parse_whitespace s))
       (\<lambda>s1. case parse_substr s1 ['')'', '',''] True of
                Inl e \<Rightarrow> Some (Inl e)
              | Inr (variable_name, s2) \<Rightarrow>
                  (case get_variable_index variable_name name_context of
                     Inl e \<Rightarrow> Some (Inl e)
                   | Inr idx \<Rightarrow>
                       after_char (parse_comma (parse_whitespace s2))
                         (\<lambda>s3. then_parse
                            (plist (parse_whitespace s3) ['')''] wide_context name_context)
                            (\<lambda>m s4. after_char (parse_close_paren (parse_whitespace s4))
                               (\<lambda>s5. Some (Inr (Bind_matcher m idx, s5)))))))"

text \<open>
  The \<^verbatim>\<open>switch(type)\<close> of \<^verbatim>\<open>parse_matcher_args\<close>: the types with a sub-matcher,
  and \<open>leaf_matcher_args\<close> for the others.
\<close>

definition parse_typed_matcher_args ::
  "sub_parser \<Rightarrow> host \<Rightarrow> matcher_type \<Rightarrow> string \<Rightarrow> sub_parser" where
  "parse_typed_matcher_args plist h type matcher_name s terminators wide_context name_context =
     (case type of
        matcher_type_all \<Rightarrow>
          if \<not> wide_context then Some (Inl (wide_context_required matcher_name))
          else then_parse (parse_pkg_matcher_args plist s terminators False name_context)
                 (\<lambda>m s1. Some (Inr (All_matcher m, s1)))
      | matcher_type_and \<Rightarrow>
          parse_binary_matcher plist And_matcher s terminators wide_context name_context
      | matcher_type_any \<Rightarrow>
          if \<not> wide_context then Some (Inl (wide_context_required matcher_name))
          else then_parse (parse_pkg_matcher_args plist s terminators False name_context)
                 (\<lambda>m s1. Some (Inr (Any_matcher m, s1)))
      | matcher_type_bind \<Rightarrow> parse_bind_args plist s wide_context name_context
      | matcher_type_for \<Rightarrow>
          parse_explicit_matcher plist matcher_name s terminators wide_context name_context
      | matcher_type_narrow \<Rightarrow>
          parse_binary_matcher plist Select_matcher s terminators False name_context
      | matcher_type_not \<Rightarrow>
          then_parse (parse_pkg_matcher_args plist s terminators wide_context name_context)
            (\<lambda>m s1. Some (Inr (Not_matcher m, s1)))
      | matcher_type_or \<Rightarrow>
          parse_binary_matcher plist Or_matcher s terminators wide_context name_context
      | matcher_type_provides \<Rightarrow>
          parse_unary_matcher plist Provides_matcher s terminators False name_context
      | matcher_type_widen \<Rightarrow>
          then_parse (parse_pkg_matcher_args plist s terminators True name_context)
            (\<lambda>m s1. Some (Inr (Widen_matcher m, s1)))
      | _ \<Rightarrow> Some (leaf_matcher_args h type s))"

definition parse_matcher_args :: "sub_parser \<Rightarrow> host \<Rightarrow> string \<Rightarrow> sub_parser" where
  "parse_matcher_args plist h matcher_name s terminators wide_context name_context =
     (case dep_name_parts matcher_name of
        (broken, reverse, suffix) \<Rightarrow>
          (case parse_deptype suffix of
             None \<Rightarrow>
               if reverse \<and> suffix = ''provides'' then
                 then_parse
                   (parse_pkg_matcher_args plist (skip_space_unterminated terminators s)
                      terminators False name_context)
                   (\<lambda>m s1. Some (Inr (Revprv_matcher m, s1)))
               else if broken \<or> reverse then Some (Inl (''Unknown dependency type: '' @ suffix))
               else
                 (case find_matcher_type matcher_name of
                    None \<Rightarrow>
                      Some (Inl (''Unknown matcher type: '' @ [CHR 0x22] @ matcher_name
                                 @ [CHR 0x22] @ ''.''))
                  | Some type \<Rightarrow>
                      parse_typed_matcher_args plist h type matcher_name
                        (skip_space_unterminated terminators s) terminators wide_context
                        name_context)
           | Some deptype \<Rightarrow>
               if reverse then
                 then_parse
                   (parse_pkg_matcher_args plist (skip_space_unterminated terminators s)
                      terminators False name_context)
                   (\<lambda>m s1. Some (Inr (Revdep_matcher deptype m broken, s1)))
               else if broken then
                 then_parse
                   (parse_optional_pkg_matcher_args plist (skip_space_unterminated terminators s)
                      terminators False name_context)
                   (\<lambda>mo s1. Some (Inr (case mo of
                                          Some m \<Rightarrow> Dep_matcher deptype m broken
                                        | None \<Rightarrow> Leaf (Broken_type_matcher deptype), s1)))
               else
                 then_parse
                   (parse_pkg_matcher_args plist (skip_space_unterminated terminators s)
                      terminators False name_context)
                   (\<lambda>m s1. Some (Inr (Dep_matcher deptype m broken, s1)))))"

text \<open>
  \<^verbatim>\<open>parse_function_style_matcher_tail\<close> reads \<^verbatim>\<open>*start\<close> without testing
  \<^verbatim>\<open>start != end\<close>; at the end of a \<^verbatim>\<open>std::string\<close> that character is the
  terminating null, which is not \<^verbatim>\<open>'='\<close>.
\<close>

definition parse_named_matcher :: "sub_parser \<Rightarrow> host \<Rightarrow> sub_parser" where
  "parse_named_matcher plist h s terminators wide_context name_context =
     (case scan_matcher_name terminators [] [] [] (dropWhile isspace s) of
        Inl e \<Rightarrow> Some (Inl e)
      | Inr ((lower_case_name, bound_variable), s1) \<Rightarrow>
          then_parse
            (parse_matcher_args plist h lower_case_name s1 terminators wide_context name_context)
            (\<lambda>m s2. built (maybe_bind bound_variable m name_context) s2))"

definition parse_equal_matcher :: "string \<Rightarrow> string list \<Rightarrow> parse_environment \<Rightarrow> matcher parsed option" where
  "parse_equal_matcher s terminators name_context =
     (if fst (scan_variable terminators (parse_whitespace s)) = [] then
        Some (Inl ''Unexpected end of pattern following ?= (expected a variable name).'')
      else
        (case get_variable_index (fst (scan_variable terminators (parse_whitespace s))) name_context of
           Inl e \<Rightarrow> Some (Inl e)
         | Inr idx \<Rightarrow>
             Some (Inr (Equal_matcher idx, snd (scan_variable terminators (parse_whitespace s))))))"

definition parse_function_style_matcher_tail :: "sub_parser \<Rightarrow> host \<Rightarrow> sub_parser" where
  "parse_function_style_matcher_tail plist h s terminators wide_context name_context =
     (case s of
        [] \<Rightarrow> parse_named_matcher plist h s terminators wide_context name_context
      | c # cs \<Rightarrow>
          if c = CHR ''='' then parse_equal_matcher cs terminators name_context
          else parse_named_matcher plist h s terminators wide_context name_context)"

subsection \<open>Short forms with a sub-matcher\<close>

fun scan_alpha :: "string list \<Rightarrow> string \<Rightarrow> string \<times> string" where
  "scan_alpha terminators [] = ([], [])"
| "scan_alpha terminators (c # cs) =
     (if isalpha c \<and> \<not> terminate (c # cs) terminators
      then (c # fst (scan_alpha terminators cs), snd (scan_alpha terminators cs))
      else ([], c # cs))"

text \<open>
  The head of \<^verbatim>\<open>~D\<close> and \<^verbatim>\<open>~R\<close>: an optional \<^verbatim>\<open>B\<close>, then an optional
  dependency type before a colon. The result is \<^verbatim>\<open>do_provides\<close>, \<^verbatim>\<open>type\<close> and
  \<^verbatim>\<open>broken\<close>.
\<close>

definition dep_type_name_text :: "string list \<Rightarrow> string \<Rightarrow> string" where
  \<comment> \<open>\<^verbatim>\<open>tname\<close>: the text from \<^verbatim>\<open>start\<close> to \<^verbatim>\<open>nextstart\<close>, stripped\<close>
  "dep_type_name_text terminators s =
     stripws (fst (scan_alpha terminators s) @ takeWhile isspace (snd (scan_alpha terminators s)))"

definition parse_dep_head :: "string list \<Rightarrow> bool \<Rightarrow> string \<Rightarrow> (bool \<times> dep_type \<times> bool) parsed" where
  "parse_dep_head terminators broken s =
     (case dropWhile isspace (snd (scan_alpha terminators s)) of
        [] \<Rightarrow> Inr ((False, Depends, broken), s)
      | c # cs \<Rightarrow>
          if c = CHR '':'' then
            (if strcasecmp_eq (dep_type_name_text terminators s) ''provides'' then
               (if broken then Inl ''Provides: cannot be broken''
                else Inr ((True, Depends, broken), cs))
             else
               (case parse_deptype (dep_type_name_text terminators s) of
                  None \<Rightarrow> Inl (''Unknown dependency type: '' @ dep_type_name_text terminators s)
                | Some type \<Rightarrow> Inr ((False, type, broken), cs)))
          else Inr ((False, Depends, broken), s))"

definition parse_dep_prefix :: "string list \<Rightarrow> string \<Rightarrow> (bool \<times> dep_type \<times> bool) parsed" where
  "parse_dep_prefix terminators s =
     (case s of
        [] \<Rightarrow> parse_dep_head terminators False s
      | c # cs \<Rightarrow>
          if c = CHR ''B'' then parse_dep_head terminators True cs
          else parse_dep_head terminators False s)"

definition dep_short_form :: "char \<Rightarrow> bool \<times> dep_type \<times> bool \<Rightarrow> matcher \<Rightarrow> matcher" where
  "dep_short_form search_flag head m =
     (case head of
        (do_provides, type, broken) \<Rightarrow>
          if search_flag = CHR ''D'' then
            (if do_provides then Provides_matcher m else Dep_matcher type m broken)
          else
            (if do_provides then Revprv_matcher m else Revdep_matcher type m broken))"

text \<open>
  The \<^verbatim>\<open>switch(search_flag)\<close> of \<^verbatim>\<open>parse_atom\<close>, after the tilde, the flag and
  the white space behind it. \<open>patom\<close> stands for \<^verbatim>\<open>parse_atom\<close>.
\<close>

definition parse_short_form ::
  "sub_parser \<Rightarrow> host \<Rightarrow> bool \<Rightarrow> char \<Rightarrow> string \<Rightarrow> string list \<Rightarrow> parse_environment
   \<Rightarrow> matcher parsed option" where
  "parse_short_form patom h search_descriptions search_flag s terminators name_context =
     (case short_form_flag search_flag of
        Some m \<Rightarrow> Some (Inr (m, s))
      | None \<Rightarrow>
          if search_flag = CHR ''P'' \<or> search_flag = CHR ''C'' \<or> search_flag = CHR ''W'' then
            then_parse (patom s terminators (search_flag = CHR ''W'') name_context)
              (\<lambda>m s1. Some (Inr (if search_flag = CHR ''C'' then Dep_matcher Conflicts m False
                                  else if search_flag = CHR ''P'' then Provides_matcher m
                                  else Widen_matcher m, s1)))
          else if search_flag = CHR ''S'' then
            then_parse (patom s terminators False name_context)
              (\<lambda>filter_m s1. then_parse (patom s1 terminators False name_context)
                 (\<lambda>pattern s2. Some (Inr (Select_matcher filter_m pattern, s2))))
          else if search_flag = CHR ''D'' \<or> search_flag = CHR ''R'' then
            (case parse_dep_prefix terminators s of
               Inl e \<Rightarrow> Some (Inl e)
             | Inr (head, s1) \<Rightarrow>
                 then_parse (patom s1 terminators False name_context)
                   (\<lambda>m s2. Some (Inr (dep_short_form search_flag head m, s2))))
          else
            (case parse_substr s terminators True of
               Inl e \<Rightarrow> Some (Inl e)
             | Inr (substr, s1) \<Rightarrow> built (short_form_matcher h search_flag substr) s1))"

section \<open>The parser: atoms, groups and lists\<close>

text \<open>
  The first argument bounds the depth of the calls. In \<open>parse_and_group\<close> the argument
  \<open>rval\<close> is the local of that name, and the text is past the white space the source
  skips before it tests its loop condition.
\<close>

definition unmatched_paren :: "matcher \<Rightarrow> string \<Rightarrow> matcher parsed option" where
  "unmatched_paren lst s =
     (case s of
        [] \<Rightarrow> Some (Inl (''Unmatched '' @ [CHR 0x27, CHR ''('', CHR 0x27]))
      | c # cs \<Rightarrow>
          if c = CHR '')'' then Some (Inr (lst, cs))
          else Some (Inl (''Unmatched '' @ [CHR 0x27, CHR ''('', CHR 0x27])))"

definition and_onto :: "matcher option \<Rightarrow> matcher \<Rightarrow> matcher" where
  "and_onto rval atom = (case rval of None \<Rightarrow> atom | Some r \<Rightarrow> And_matcher r atom)"

definition at_boundary :: "string \<Rightarrow> string list \<Rightarrow> bool" where
  \<comment> \<open>the negation of
     \<^verbatim>\<open>start != end && *start != '|' && *start != ')' && !terminate(start, end, terminators)\<close>\<close>
  "at_boundary s terminators =
     (case s of
        [] \<Rightarrow> True
      | c # cs \<Rightarrow> c = CHR ''|'' \<or> c = CHR '')'' \<or> terminate (c # cs) terminators)"

text \<open>The body of \<^verbatim>\<open>parse_atom\<close>; its loop returns or throws in its first round.\<close>

definition parse_atom_body :: "sub_parser \<Rightarrow> sub_parser \<Rightarrow> host \<Rightarrow> bool \<Rightarrow> sub_parser" where
  "parse_atom_body patom plist h search_descriptions s terminators wide_context name_context =
     (if at_boundary (dropWhile isspace s) terminators then
        Some (Inl (''Can't search for '' @ [CHR 0x22, CHR 0x22]))
      else if hd (dropWhile isspace s) = CHR ''!'' then
        then_parse (patom (tl (dropWhile isspace s)) terminators wide_context name_context)
          (\<lambda>m s1. Some (Inr (Not_matcher m, s1)))
      else if hd (dropWhile isspace s) = CHR ''('' then
        then_parse (plist (tl (dropWhile isspace s)) [] wide_context name_context)
          unmatched_paren
      else if hd (dropWhile isspace s) = CHR ''?'' then
        parse_function_style_matcher_tail plist h (tl (dropWhile isspace s)) terminators
          wide_context name_context
      else if hd (dropWhile isspace s) = CHR ''~'' then
        (case dropWhile isspace (tl (dropWhile isspace s)) of
           [] \<Rightarrow> built (name_or_description h search_descriptions ''~'' []) []
         | search_flag # s1 \<Rightarrow>
             parse_short_form patom h search_descriptions search_flag (dropWhile isspace s1)
               terminators name_context)
      else
        (case parse_substr (dropWhile isspace s) terminators True of
           Inl e \<Rightarrow> Some (Inl e)
         | Inr (substr, s1) \<Rightarrow>
             built (name_or_description h search_descriptions substr substr) s1))"

text \<open>The part of \<^verbatim>\<open>parse_condition_list\<close> after its call of
  \<^verbatim>\<open>parse_and_group\<close>, which returned \<open>grp\<close>.\<close>

definition parse_condition_tail ::
  "sub_parser \<Rightarrow> matcher \<Rightarrow> string \<Rightarrow> string list \<Rightarrow> bool \<Rightarrow> parse_environment
   \<Rightarrow> matcher parsed option" where
  "parse_condition_tail plist grp s terminators wide_context name_context =
     (case dropWhile isspace s of
        [] \<Rightarrow> Some (Inr (grp, []))
      | c # cs \<Rightarrow>
          if c \<noteq> CHR '')'' \<and> \<not> terminate (c # cs) terminators then
            (if c = CHR ''|'' then
               then_parse (plist cs terminators wide_context name_context)
                 (\<lambda>grp2 s2. Some (Inr (Or_matcher grp grp2, s2)))
             else Some (Inl ''Badly formed expression''))
          else Some (Inr (grp, c # cs)))"

fun parse_atom ::
    "nat \<Rightarrow> host \<Rightarrow> bool \<Rightarrow> string \<Rightarrow> string list \<Rightarrow> bool \<Rightarrow> parse_environment
     \<Rightarrow> matcher parsed option"
  and parse_and_group ::
    "nat \<Rightarrow> host \<Rightarrow> bool \<Rightarrow> matcher option \<Rightarrow> string \<Rightarrow> string list \<Rightarrow> bool \<Rightarrow> parse_environment
     \<Rightarrow> matcher parsed option"
  and parse_condition_list ::
    "nat \<Rightarrow> host \<Rightarrow> bool \<Rightarrow> string \<Rightarrow> string list \<Rightarrow> bool \<Rightarrow> parse_environment
     \<Rightarrow> matcher parsed option" where
  "parse_atom 0 h search_descriptions s terminators wide_context name_context = None"
| "parse_atom (Suc n) h search_descriptions s terminators wide_context name_context =
     parse_atom_body (parse_atom n h search_descriptions)
       (parse_condition_list n h search_descriptions) h search_descriptions s terminators
       wide_context name_context"
| "parse_and_group 0 h search_descriptions rval s terminators wide_context name_context = None"
| "parse_and_group (Suc n) h search_descriptions rval s terminators wide_context name_context =
     (if at_boundary s terminators then
        (case rval of
           None \<Rightarrow> Some (Inl ''Unexpected empty expression'')
         | Some r \<Rightarrow> Some (Inr (r, s)))
      else
        then_parse
          (parse_atom n h search_descriptions s terminators wide_context name_context)
          (\<lambda>atom s1. parse_and_group n h search_descriptions (Some (and_onto rval atom))
                        (dropWhile isspace s1) terminators wide_context name_context))"
| "parse_condition_list 0 h search_descriptions s terminators wide_context name_context = None"
| "parse_condition_list (Suc n) h search_descriptions s terminators wide_context name_context =
     then_parse
       (parse_and_group n h search_descriptions None (dropWhile isspace s) terminators
          wide_context name_context)
       (\<lambda>grp s1. parse_condition_tail (parse_condition_list n h search_descriptions) grp s1
                    terminators wide_context name_context)"

section \<open>The parser: \<^verbatim>\<open>parse_pattern\<close>\<close>

text \<open>
  What a call of \<^verbatim>\<open>parse_pattern\<close> does to its caller: an exception reaches the
  caller (\<open>Throws\<close>), or the call returns a matcher or null, having handed the listed
  messages to \<^verbatim>\<open>_error->Error\<close>. Where \<^verbatim>\<open>start\<close> stands afterwards is not
  part of the result.
\<close>

datatype pattern_result = Throws string | Returns "matcher option" "string list"

text \<open>The statements of the \<^verbatim>\<open>try\<close> block.\<close>

definition parse_pattern_try ::
  "nat \<Rightarrow> host \<Rightarrow> string \<Rightarrow> string list \<Rightarrow> bool \<Rightarrow> bool \<Rightarrow> (string + matcher) option" where
  "parse_pattern_try n h s terminators search_descriptions require_full_parse =
     (case parse_condition_list n h search_descriptions s terminators True [] of
        None \<Rightarrow> None
      | Some (Inl e) \<Rightarrow> Some (Inl e)
      | Some (Inr (rval, s1)) \<Rightarrow>
          if require_full_parse \<and> dropWhile isspace s1 \<noteq> []
          then Some (Inl (''Unexpected '' @ [CHR 0x27, CHR '')'', CHR 0x27]))
          else Some (Inr rval))"

text \<open>The handler \<^verbatim>\<open>catch(CompilationException e)\<close>, and a normal return.\<close>

definition parse_pattern_catch :: "bool \<Rightarrow> string + matcher \<Rightarrow> pattern_result" where
  "parse_pattern_catch flag_errors r =
     (case r of
        Inl e \<Rightarrow> Returns None (if flag_errors then [e] else [])
      | Inr rval \<Rightarrow> Returns (Some rval) [])"

definition parse_pattern ::
  "nat \<Rightarrow> host \<Rightarrow> string \<Rightarrow> string list \<Rightarrow> bool \<Rightarrow> bool \<Rightarrow> bool \<Rightarrow> pattern_result option" where
  "parse_pattern n h s terminators search_descriptions flag_errors require_full_parse =
     (if skip_space_unterminated terminators s = [] then Some (Returns None [])
      else map_option (parse_pattern_catch flag_errors)
             (parse_pattern_try n h (skip_space_unterminated terminators s) terminators
                search_descriptions require_full_parse))"

section \<open>Variable scope\<close>

text \<open>
  \<open>indices_below d m\<close>: every index of a bind or equal matcher in \<open>m\<close> is less than \<open>d\<close>
  plus the number of explicit matchers around it, that is, less than the size the stack
  has there when \<open>m\<close> is evaluated on a stack of size \<open>d\<close>. \<open>env_below name_context d\<close>:
  the environment binds at most \<open>d\<close> names, to indices less than \<open>d\<close>.
\<close>

fun indices_below :: "nat \<Rightarrow> matcher \<Rightarrow> bool" where
  "indices_below d (Leaf l) = True"
| "indices_below d (Dep_matcher type pattern broken) = indices_below d pattern"
| "indices_below d (Or_matcher left right) = (indices_below d left \<and> indices_below d right)"
| "indices_below d (And_matcher left right) = (indices_below d left \<and> indices_below d right)"
| "indices_below d (Not_matcher child) = indices_below d child"
| "indices_below d (Widen_matcher pattern) = indices_below d pattern"
| "indices_below d (Select_matcher filter_m pattern) =
     (indices_below d filter_m \<and> indices_below d pattern)"
| "indices_below d (Revdep_matcher type pattern broken) = indices_below d pattern"
| "indices_below d (Provides_matcher pattern) = indices_below d pattern"
| "indices_below d (Revprv_matcher pattern) = indices_below d pattern"
| "indices_below d (All_matcher sub_matcher) = indices_below d sub_matcher"
| "indices_below d (Any_matcher sub_matcher) = indices_below d sub_matcher"
| "indices_below d (Explicit_matcher sub_matcher) = indices_below (Suc d) sub_matcher"
| "indices_below d (Bind_matcher sub_matcher variable) =
     (variable < d \<and> indices_below d sub_matcher)"
| "indices_below d (Equal_matcher variable) = (variable < d)"

definition env_below :: "parse_environment \<Rightarrow> nat \<Rightarrow> bool" where
  "env_below name_context d =
     (env_size name_context \<le> d \<and> list_all (\<lambda>b. snd b < d) name_context)"

text \<open>A parser keeps the indices in range when every matcher it returns does, under
  every environment that is in range.\<close>

definition keeps_indices :: "sub_parser \<Rightarrow> bool" where
  "keeps_indices plist =
     (\<forall>s ts wide env d m rest.
        env_below env d \<and> plist s ts wide env = Some (Inr (m, rest)) \<longrightarrow> indices_below d m)"

section \<open>A small catalog\<close>

text \<open>
  Concrete values on which the theorems below are exercised: \<open>no_package\<close> has no
  version; in \<open>two_versions\<close> the package \<open>0\<close> is named \<open>apt\<close> and has the versions
  \<open>1\<close> (installed) and \<open>2\<close>; the regular-expression engine of both matches nothing
  but the pattern \<open>.*\<close>, which it matches on every subject.
\<close>

definition no_package :: package where
  "no_package =
     \<lparr>pkg_name = [], pkg_version_list = [], pkg_current_ver = None,
      pkg_rev_depends_list = [], pkg_provides_list = [], pkg_flag_essential = False,
      pkg_flag_important = False, pkg_config_files = False, pkg_tasks = None,
      pkg_tags = None, pkg_is_obsolete = False\<rparr>"

definition no_state :: state_cache where
  "no_state =
     \<lparr>st_candidate_ver = None, st_inst_ver = None, st_install = False, st_auto = False,
      st_now_broken = False, st_inst_broken = False, st_purge = False, st_keep = True,
      st_garbage = False, st_upgradable = False, st_user_tags = [],
      st_selection_hold = False, st_new_package = False, st_action = pkg_unchanged\<rparr>"

definition no_version :: version where
  "no_version =
     \<lparr>ver_str = Some ''1.0'', ver_section = None, ver_prio = None, ver_priority_type = [],
      ver_file_list = [], ver_depends_list = [], ver_provides_list = [],
      ver_maintainer = [], ver_long_description = []\<rparr>"

definition dot_star_only :: "string \<Rightarrow> string \<Rightarrow> string list option" where
  "dot_star_only pat s = (if pat = ''.*'' then Some [s] else None)"

definition empty_catalog :: catalog where
  "empty_catalog =
     \<lparr>package_of = (\<lambda>p. no_package), state_of = (\<lambda>p. no_state),
      version_of = (\<lambda>w. no_version), check_dep = (\<lambda>a b c. True),
      regexec = dot_star_only, dep_type_name = (\<lambda>t. [])\<rparr>"

definition two_versions :: catalog where
  "two_versions =
     empty_catalog
       \<lparr>package_of :=
          (\<lambda>p. no_package\<lparr>pkg_name := ''apt'', pkg_version_list := [1, 2],
                           pkg_current_ver := Some 1\<rparr>)\<rparr>"

text \<open>
  In \<open>empty_source_fields\<close> every version has two file records, both with an empty
  source package and an empty source version.
\<close>

definition no_source :: ver_file where
  "no_source =
     \<lparr>vf_file_end = False, vf_archive = None, vf_origin = None, vf_source_pkg = [],
      vf_source_ver = []\<rparr>"

definition empty_source_fields :: catalog where
  "empty_source_fields =
     two_versions\<lparr>version_of := (\<lambda>w. no_version\<lparr>ver_file_list := [no_source, no_source]\<rparr>)\<rparr>"

definition plain_host :: host where
  "plain_host = \<lparr>regcomp_error = (\<lambda>pat. None), cache_priority = None\<rparr>"

section \<open>Verified properties\<close>

subsection \<open>Narrow and conjunction\<close>

text \<open>
  Claim C5. For all matchers \<open>f\<close> and \<open>x\<close>, every package, version, catalog and stack,
  \<^verbatim>\<open>pkg_select_matcher(f, x)\<close> and \<^verbatim>\<open>pkg_and_matcher(f, x)\<close> return the same
  boolean (and throw alike) from \<^verbatim>\<open>matches(pkg, ver, ...)\<close>.
\<close>

theorem narrow_and_agree:
  "matches cat (Select_matcher f x) p v st = matches cat (And_matcher f x) p v st"
  by simp

subsection \<open>Widen twice\<close>

text \<open>
  Claim C6. For every matcher \<open>x\<close>, package, optional version, catalog and stack, a widen
  matcher around a widen matcher around \<open>x\<close> returns what a single widen matcher around
  \<open>x\<close> returns, from \<^verbatim>\<open>matches\<close> with a version and from \<^verbatim>\<open>matches\<close> without.
\<close>

theorem widen_idempotent:
  "matches cat (Widen_matcher (Widen_matcher x)) p v st = matches cat (Widen_matcher x) p v st
   \<and> matches_pkg cat (Widen_matcher (Widen_matcher x)) p st
       = matches_pkg cat (Widen_matcher x) p st"
  by simp

subsection \<open>All versions of a package without versions\<close>

text \<open>
  Claim C10. For every sub-matcher \<open>x\<close> and every package that has no version,
  \<^verbatim>\<open>pkg_all_matcher::matches(pkg, ...)\<close> returns true, while
  \<^verbatim>\<open>pkg_all_matcher::get_match(pkg, ...)\<close> on the same package returns null.
\<close>

theorem all_versions_of_none:
  assumes "version_list cat p = []"
  shows "matches_pkg cat (All_matcher x) p st = Inr True
         \<and> get_match_pkg cat (All_matcher x) p st = Inr None"
  using assms by simp

theorem all_versions_of_none_witness:
  "version_list empty_catalog 0 = []
   \<and> matches_pkg empty_catalog (All_matcher (Leaf False_matcher)) 0 [] = Inr True
   \<and> get_match_pkg empty_catalog (All_matcher (Leaf False_matcher)) 0 [] = Inr None"
proof -
  have none: "version_list empty_catalog 0 = []"
    by (simp add: version_list_def empty_catalog_def no_package_def)
  from all_versions_of_none [OF none, of "Leaf False_matcher" "[]"] none
  show ?thesis by simp
qed

subsection \<open>The default of the source matchers\<close>

text \<open>
  Claim C9 says that the source-package and source-version matchers compare the package
  name (the version string) once for all the file records of a version. On a version
  with two file records whose source fields are empty, and a pattern that matches
  neither the name \<open>apt\<close> nor the version \<open>1.0\<close>, the loops hand the default to
  \<^verbatim>\<open>string_matches\<close> twice: \<^verbatim>\<open>checked_real_package\<close> is never set.
\<close>

theorem source_default_compared_twice:
  "source_scan (string_matches empty_source_fields ''bar'') (name_of empty_source_fields 0) False
     (map vf_source_pkg (ver_file_list (version_of empty_source_fields 1)))
     = (False, [''apt'', ''apt''])
   \<and> source_scan (string_matches empty_source_fields ''bar'')
       (c_str (ver_str (version_of empty_source_fields 1))) False
       (map vf_source_ver (ver_file_list (version_of empty_source_fields 1)))
     = (False, [''1.0'', ''1.0''])
   \<and> matches empty_source_fields (Leaf (Source_package_matcher ''bar'')) 0 (Some 1) [] = Inr False
   \<and> matches empty_source_fields (Leaf (Source_version_matcher ''bar'')) 0 (Some 1) [] = Inr False"
  by (simp add: empty_source_fields_def two_versions_def empty_catalog_def no_package_def
      no_version_def no_source_def name_of_def c_str_def string_matches_def dot_star_only_def
      source_package_matches_def source_version_matches_def)

subsection \<open>Results and verdicts\<close>

text \<open>
  Claim C1 says that the free function \<^verbatim>\<open>get_match\<close> returns a result exactly when
  \<^verbatim>\<open>apply_matcher\<close> returns true. The pattern \<^verbatim>\<open>?for x: ?installed\<close> parses to an
  explicit matcher around the installed matcher. On the version \<open>2\<close> of the package
  \<open>apt\<close>, whose installed version is \<open>1\<close>, \<^verbatim>\<open>apply_matcher\<close> returns false and
  \<^verbatim>\<open>get_match\<close> returns a result:
  \<^verbatim>\<open>pkg_explicit_matcher::get_match(pkg, ver, ...)\<close> asks its sub-matcher about the
  package, where \<^verbatim>\<open>matches(pkg, ver, ...)\<close> asks it about the version.
\<close>

theorem explicit_result_without_match:
  "parse_pattern 6 plain_host ''?for x: ?installed'' [] False False True
     = Some (Returns (Some (Explicit_matcher (Leaf Installed_matcher))) [])
   \<and> apply_matcher two_versions (Explicit_matcher (Leaf Installed_matcher)) 0 (Some 2) = Inr False
   \<and> get_match_fresh two_versions (Explicit_matcher (Leaf Installed_matcher)) 0 (Some 2)
       = Inr (Some (Unitary_result ''Installed''))"
proof -
  have "parse_pattern 6 plain_host ''?for x: ?installed'' [] False False True
          = Some (Returns (Some (Explicit_matcher (Leaf Installed_matcher))) [])"
    by code_simp
  moreover have
    "apply_matcher two_versions (Explicit_matcher (Leaf Installed_matcher)) 0 (Some 2) = Inr False"
    by (simp add: apply_matcher_def two_versions_def empty_catalog_def no_package_def
        current_ver_def)
  moreover have
    "get_match_fresh two_versions (Explicit_matcher (Leaf Installed_matcher)) 0 (Some 2)
       = Inr (Some (Unitary_result ''Installed''))"
    by (simp add: get_match_fresh_def get_match_versions_def two_versions_def empty_catalog_def
        no_package_def version_list_def current_ver_def)
  ultimately show ?thesis by simp
qed

subsection \<open>The empty pattern\<close>

text \<open>
  Claim C7. A string matcher constructed with the empty pattern is the one constructed
  with the pattern \<^verbatim>\<open>.*\<close>, whichever class it is; its \<^verbatim>\<open>string_matches\<close> accepts
  every string, given that the C library's \<^verbatim>\<open>regexec\<close> matches \<^verbatim>\<open>.*\<close> on every
  string.
\<close>

theorem empty_pattern_matches_all:
  assumes "\<And>t. regexec cat ''.*'' t \<noteq> None"
  shows "pkg_string_matcher h ctor [] = pkg_string_matcher h ctor ''.*''
         \<and> string_matches cat (compiled_pattern []) s"
  using assms
  by (simp add: pkg_string_matcher_def compiled_pattern_def string_matches_def
      split: option.splits)

theorem empty_pattern_matches_all_witness:
  "(\<forall>t. regexec empty_catalog ''.*'' t \<noteq> None)
   \<and> pkg_string_matcher plain_host Name_matcher [] = pkg_string_matcher plain_host Name_matcher ''.*''
   \<and> string_matches empty_catalog (compiled_pattern []) ''apt''"
proof -
  have lib: "\<And>t. regexec empty_catalog ''.*'' t \<noteq> None"
    by (simp add: empty_catalog_def dot_star_only_def)
  from empty_pattern_matches_all [of empty_catalog plain_host Name_matcher "''apt''", OF lib] lib
  show ?thesis by simp
qed

subsection \<open>Compile errors at \<^verbatim>\<open>parse_pattern\<close>\<close>

text \<open>
  Claim C2 says that a compile error is thrown to the caller of \<^verbatim>\<open>parse_pattern\<close>
  unless \<^verbatim>\<open>flag_errors\<close> is set. The pattern \<^verbatim>\<open>(\<close> does not compile
  (\<^verbatim>\<open>parse_condition_list\<close> throws), and with \<^verbatim>\<open>flag_errors\<close> false
  \<^verbatim>\<open>parse_pattern\<close> returns null and logs nothing: the error is swallowed.
\<close>

theorem unflagged_error_is_swallowed:
  "parse_condition_list 5 plain_host False ''('' [] True []
     = Some (Inl ''Unexpected empty expression'')
   \<and> parse_pattern 5 plain_host ''('' [] False False False = Some (Returns None [])"
  by code_simp

text \<open>
  Claim C2 as amended. \<^verbatim>\<open>parse_pattern\<close> never lets an exception reach its caller.
  When \<^verbatim>\<open>parse_condition_list\<close> throws a compile error \<open>e\<close>, and when
  \<^verbatim>\<open>require_full_parse\<close> is set and text is left after the parsed list,
  \<^verbatim>\<open>parse_pattern\<close> returns null; it hands the message to \<^verbatim>\<open>_error->Error\<close>
  exactly when \<^verbatim>\<open>flag_errors\<close> is true.
\<close>

theorem parse_pattern_catches_errors:
  "parse_pattern n h s ts sd fe rfp \<noteq> Some (Throws x)
   \<and> (skip_space_unterminated ts s \<noteq> []
        \<and> parse_condition_list n h sd (skip_space_unterminated ts s) ts True [] = Some (Inl e)
      \<longrightarrow> parse_pattern n h s ts sd fe rfp = Some (Returns None (if fe then [e] else [])))
   \<and> (skip_space_unterminated ts s \<noteq> []
        \<and> parse_condition_list n h sd (skip_space_unterminated ts s) ts True []
            = Some (Inr (m, s1))
        \<and> rfp \<and> dropWhile isspace s1 \<noteq> []
      \<longrightarrow> parse_pattern n h s ts sd fe rfp
          = Some (Returns None
              (if fe then [''Unexpected '' @ [CHR 0x27, CHR '')'', CHR 0x27]] else [])))"
  by (auto simp: parse_pattern_def parse_pattern_try_def parse_pattern_catch_def
      split: option.splits sum.splits)

theorem parse_pattern_catches_errors_witness:
  "skip_space_unterminated [] ''('' \<noteq> []
   \<and> parse_condition_list 5 plain_host False (skip_space_unterminated [] ''('') [] True []
       = Some (Inl ''Unexpected empty expression'')
   \<and> parse_pattern 5 plain_host ''('' [] False True False
       = Some (Returns None [''Unexpected empty expression''])
   \<and> skip_space_unterminated [] ''a)'' \<noteq> []
   \<and> parse_condition_list 5 plain_host False (skip_space_unterminated [] ''a)'') [] True []
       = Some (Inr (Leaf (Name_matcher ''a''), '')''))
   \<and> dropWhile isspace '')'' \<noteq> []
   \<and> parse_pattern 5 plain_host ''a)'' [] False True True
       = Some (Returns None [''Unexpected '' @ [CHR 0x27, CHR '')'', CHR 0x27]])"
proof -
  have a1: "skip_space_unterminated [] ''('' \<noteq> []"
    by code_simp
  have a2: "parse_condition_list 5 plain_host False (skip_space_unterminated [] ''('') [] True []
              = Some (Inl ''Unexpected empty expression'')"
    by code_simp
  have b1: "skip_space_unterminated [] ''a)'' \<noteq> []"
    by code_simp
  have b2: "parse_condition_list 5 plain_host False (skip_space_unterminated [] ''a)'') [] True []
              = Some (Inr (Leaf (Name_matcher ''a''), '')''))"
    by code_simp
  have b3: "dropWhile isspace '')'' \<noteq> []"
    by code_simp
  from parse_pattern_catches_errors
         [where n = 5 and h = plain_host and s = "''(''" and ts = "[]" and sd = False
            and fe = True and rfp = False and e = "''Unexpected empty expression''"]
       a1 a2
  have a3: "parse_pattern 5 plain_host ''('' [] False True False
              = Some (Returns None [''Unexpected empty expression''])"
    by simp
  from parse_pattern_catches_errors
         [where n = 5 and h = plain_host and s = "''a)''" and ts = "[]" and sd = False
            and fe = True and rfp = True and m = "Leaf (Name_matcher ''a'')" and ?s1.0 = "'')''"]
       b1 b2 b3
  have "parse_pattern 5 plain_host ''a)'' [] False True True
          = Some (Returns None [''Unexpected '' @ [CHR 0x27, CHR '')'', CHR 0x27]])"
    by simp
  with a1 a2 a3 b1 b2 b3 show ?thesis by blast
qed

subsection \<open>Blank patterns\<close>

text \<open>
  Claim C8 says that a pattern of white space up to a caller-supplied terminator yields
  null and no error. On a blank followed by the terminator \<^verbatim>\<open>,\<close> the loop of
  \<^verbatim>\<open>parse_pattern\<close> stops at the terminator, \<^verbatim>\<open>start\<close> is not \<^verbatim>\<open>end\<close>, and
  the parser throws the compile error of an empty expression, which is logged when
  \<^verbatim>\<open>flag_errors\<close> is set.
\<close>

theorem blank_before_terminator_is_an_error:
  "parse_pattern 2 plain_host '' ,'' ['',''] False True True
     = Some (Returns None [''Unexpected empty expression''])"
  by code_simp

lemma skip_space_blank:
  "list_all isspace s \<Longrightarrow> (\<forall>k<length s. \<not> terminate (drop k s) ts)
   \<Longrightarrow> skip_space_unterminated ts s = []"
proof (induction s)
  case Nil
  then show ?case by simp
next
  case (Cons c cs)
  from Cons.prems(2) have here: "\<not> terminate (c # cs) ts"
    by (metis drop0 length_greater_0_conv list.distinct(1))
  have "\<forall>k<length cs. \<not> terminate (drop k cs) ts"
  proof (intro allI impI)
    fix k assume "k < length cs"
    then have "Suc k < length (c # cs)" by simp
    with Cons.prems(2) have "\<not> terminate (drop (Suc k) (c # cs)) ts" by blast
    then show "\<not> terminate (drop k cs) ts" by simp
  qed
  with Cons have "skip_space_unterminated ts cs = []" by simp
  with Cons.prems(1) here show ?case by simp
qed

lemma skip_space_stops:
  assumes "list_all isspace w" and "r \<noteq> []" and "\<not> isspace (hd r)"
  shows "\<exists>w'. list_all isspace w' \<and> skip_space_unterminated ts (w @ r) = w' @ r"
  using assms(1)
proof (induction w)
  case Nil
  from assms(2,3) have "skip_space_unterminated ts r = r"
    by (cases r) auto
  then show ?case by (intro exI [of _ "[]"]) simp
next
  case (Cons c w)
  then obtain w' where w': "list_all isspace w'"
    and skip: "skip_space_unterminated ts (w @ r) = w' @ r"
    by auto
  show ?case
  proof (cases "isspace c \<and> \<not> terminate (c # w @ r) ts")
    case True
    with w' skip show ?thesis by auto
  next
    case False
    then have "skip_space_unterminated ts ((c # w) @ r) = (c # w) @ r"
      by auto
    with Cons.prems show ?thesis by blast
  qed
qed

lemma drop_blank_prefix:
  assumes "list_all isspace w" and "r \<noteq> []" and "\<not> isspace (hd r)"
  shows "dropWhile isspace (w @ r) = r"
proof -
  from assms(1) have "dropWhile isspace (w @ r) = dropWhile isspace r"
    by (simp add: dropWhile_append list_all_iff)
  with assms(2,3) show ?thesis
    by (cases r) auto
qed

lemma blank_before_terminator:
  assumes "list_all isspace w" and "r \<noteq> []" and "\<not> isspace (hd r)" and "terminate r ts"
  shows "parse_pattern (Suc (Suc n)) h (w @ r) ts sd fe rfp
           = Some (Returns None (if fe then [''Unexpected empty expression''] else []))"
proof -
  from skip_space_stops [OF assms(1-3)] obtain w' where w': "list_all isspace w'"
    and skip: "skip_space_unterminated ts (w @ r) = w' @ r"
    by blast
  from assms(2,4) have "at_boundary r ts"
    by (cases r) (auto simp: at_boundary_def)
  with drop_blank_prefix [OF w' assms(2,3)]
  have "parse_condition_list (Suc (Suc n)) h sd (w' @ r) ts True []
          = Some (Inl ''Unexpected empty expression'')"
    by (simp add: then_parse_def)
  with skip assms(2) show ?thesis
    by (simp add: parse_pattern_def parse_pattern_try_def parse_pattern_catch_def)
qed

text \<open>
  Claim C8 as amended. For every text that is empty or white space to its end, with no
  terminator matching at any of its positions, \<^verbatim>\<open>parse_pattern\<close> returns null and
  neither throws nor logs, whatever its other arguments and the depth bound. For white
  space followed by text that a terminator matches and that does not begin with white
  space, \<^verbatim>\<open>parse_pattern\<close> returns null as well, after the compile error of an
  empty expression, which it logs exactly when \<^verbatim>\<open>flag_errors\<close> is set.
\<close>

theorem blank_pattern_is_null:
  "(list_all isspace s \<and> (\<forall>k<length s. \<not> terminate (drop k s) ts)
      \<longrightarrow> parse_pattern n h s ts sd fe rfp = Some (Returns None []))
   \<and> (list_all isspace w \<and> r \<noteq> [] \<and> \<not> isspace (hd r) \<and> terminate r ts
      \<longrightarrow> parse_pattern (Suc (Suc n)) h (w @ r) ts sd fe rfp
          = Some (Returns None (if fe then [''Unexpected empty expression''] else [])))"
proof (intro conjI impI)
  assume "list_all isspace s \<and> (\<forall>k<length s. \<not> terminate (drop k s) ts)"
  then have "skip_space_unterminated ts s = []"
    by (blast intro: skip_space_blank)
  then show "parse_pattern n h s ts sd fe rfp = Some (Returns None [])"
    by (simp add: parse_pattern_def)
next
  assume "list_all isspace w \<and> r \<noteq> [] \<and> \<not> isspace (hd r) \<and> terminate r ts"
  then show "parse_pattern (Suc (Suc n)) h (w @ r) ts sd fe rfp
          = Some (Returns None (if fe then [''Unexpected empty expression''] else []))"
    by (blast intro: blank_before_terminator)
qed

theorem blank_pattern_is_null_witness:
  "list_all isspace [CHR '' '', CHR 0x09]
   \<and> \<not> terminate [CHR '' '', CHR 0x09] ['','']
   \<and> \<not> terminate [CHR 0x09] ['','']
   \<and> parse_pattern 0 plain_host [CHR '' '', CHR 0x09] ['',''] False True True
       = Some (Returns None [])
   \<and> list_all isspace '' '' \<and> \<not> isspace (hd '','') \<and> terminate '','' ['','']
   \<and> parse_pattern (Suc (Suc 0)) plain_host ('' '' @ '','') ['',''] False True True
       = Some (Returns None [''Unexpected empty expression''])"
proof -
  have a: "list_all isspace [CHR '' '', CHR 0x09]"
    by (simp add: isspace_def)
  have t0: "\<not> terminate [CHR '' '', CHR 0x09] ['','']"
    and t1: "\<not> terminate [CHR 0x09] ['','']"
    by (simp_all add: terminate_def)
  then have b: "\<forall>k<length [CHR '' '', CHR 0x09]. \<not> terminate (drop k [CHR '' '', CHR 0x09]) ['','']"
    by (simp add: less_Suc_eq numeral_2_eq_2)
  have c: "list_all isspace '' ''" and d: "\<not> isspace (hd '','')"
    and e: "terminate '','' ['','']" and f: "'','' \<noteq> []"
    by (simp_all add: isspace_def terminate_def)
  note inst = blank_pattern_is_null
    [where s = "[CHR '' '', CHR 0x09]" and ts = "['','']" and n = 0 and h = plain_host
       and sd = False and fe = True and rfp = True and w = "'' ''" and r = "'',''"]
  from inst a b have "parse_pattern 0 plain_host [CHR '' '', CHR 0x09] ['',''] False True True
       = Some (Returns None [])"
    by blast
  moreover from inst c d e f
  have "parse_pattern (Suc (Suc 0)) plain_host ('' '' @ '','') ['',''] False True True
       = Some (Returns None [''Unexpected empty expression''])"
    by simp
  ultimately show ?thesis using a t0 t1 c d e by blast
qed

subsection \<open>Wide contexts\<close>

lemma all_versions_parts: "dep_name_parts ''all-versions'' = (False, False, ''all-versions'')"
  by code_simp

lemma any_version_parts: "dep_name_parts ''any-version'' = (False, False, ''any-version'')"
  by code_simp

lemma all_versions_deptype: "parse_deptype ''all-versions'' = None"
  by code_simp

lemma any_version_deptype: "parse_deptype ''any-version'' = None"
  by code_simp

lemma all_versions_type: "find_matcher_type ''all-versions'' = Some matcher_type_all"
  by code_simp

lemma any_version_type: "find_matcher_type ''any-version'' = Some matcher_type_any"
  by code_simp

text \<open>
  Claim C3. Whatever the text, the terminators and the bound variables, parsing the
  arguments of \<^verbatim>\<open>?all-versions\<close> or \<^verbatim>\<open>?any-version\<close> with \<^verbatim>\<open>wide_context\<close>
  false throws the compile error that asks for a wide context; with \<^verbatim>\<open>wide_context\<close>
  true no such error is thrown, and the result is that of parsing the argument, which
  is itself parsed with \<^verbatim>\<open>wide_context\<close> false. The witness shows the contexts:
  the top level of \<^verbatim>\<open>parse_pattern\<close> and the argument of \<^verbatim>\<open>?widen\<close> are wide, the
  arguments of \<^verbatim>\<open>?depends\<close>, \<^verbatim>\<open>?narrow\<close> and \<^verbatim>\<open>?provides\<close> are not.
\<close>

theorem wide_context_is_required:
  assumes "matcher_name = ''all-versions'' \<or> matcher_name = ''any-version''"
  shows "parse_matcher_args plist h matcher_name s ts False env
           = Some (Inl (wide_context_required matcher_name))
         \<and> parse_matcher_args plist h matcher_name s ts True env
           = then_parse
               (parse_pkg_matcher_args plist (skip_space_unterminated ts s) ts False env)
               (\<lambda>m s1. Some (Inr ((if matcher_name = ''all-versions'' then All_matcher m
                                    else Any_matcher m), s1)))"
proof -
  from assms show ?thesis
  proof
    assume n: "matcher_name = ''all-versions''"
    show ?thesis
      by (simp add: n parse_matcher_args_def all_versions_parts all_versions_deptype
          all_versions_type parse_typed_matcher_args_def)
  next
    assume n: "matcher_name = ''any-version''"
    show ?thesis
      by (simp add: n parse_matcher_args_def any_version_parts any_version_deptype
          any_version_type parse_typed_matcher_args_def)
  qed
qed

theorem wide_context_is_required_witness:
  "parse_matcher_args (parse_condition_list 5 plain_host False) plain_host ''all-versions''
       ''(?true)'' [] False []
     = Some (Inl (wide_context_required ''all-versions''))
   \<and> parse_pattern 12 plain_host ''?all-versions(?true)'' [] False True True
       = Some (Returns (Some (All_matcher (Leaf True_matcher))) [])
   \<and> parse_pattern 12 plain_host ''?widen(?any-version(?true))'' [] False True True
       = Some (Returns (Some (Widen_matcher (Any_matcher (Leaf True_matcher)))) [])
   \<and> parse_pattern 12 plain_host ''?depends(?all-versions(?true))'' [] False True True
       = Some (Returns None [wide_context_required ''all-versions''])
   \<and> parse_pattern 12 plain_host ''?narrow(?true, ?any-version(?true))'' [] False True True
       = Some (Returns None [wide_context_required ''any-version''])
   \<and> parse_pattern 12 plain_host ''?provides(?all-versions(?true))'' [] False True True
       = Some (Returns None [wide_context_required ''all-versions''])"
proof -
  have "parse_matcher_args (parse_condition_list 5 plain_host False) plain_host ''all-versions''
            ''(?true)'' [] False []
          = Some (Inl (wide_context_required ''all-versions''))"
    using wide_context_is_required
            [of "''all-versions''" "parse_condition_list 5 plain_host False" plain_host
               "''(?true)''" "[]" "[]"]
    by simp
  moreover have "parse_pattern 12 plain_host ''?all-versions(?true)'' [] False True True
          = Some (Returns (Some (All_matcher (Leaf True_matcher))) [])"
    by code_simp
  moreover have "parse_pattern 12 plain_host ''?widen(?any-version(?true))'' [] False True True
          = Some (Returns (Some (Widen_matcher (Any_matcher (Leaf True_matcher)))) [])"
    by code_simp
  moreover have "parse_pattern 12 plain_host ''?depends(?all-versions(?true))'' [] False True True
          = Some (Returns None [wide_context_required ''all-versions''])"
    by code_simp
  moreover have
    "parse_pattern 12 plain_host ''?narrow(?true, ?any-version(?true))'' [] False True True
          = Some (Returns None [wide_context_required ''any-version''])"
    by code_simp
  moreover have "parse_pattern 12 plain_host ''?provides(?all-versions(?true))'' [] False True True
          = Some (Returns None [wide_context_required ''all-versions''])"
    by code_simp
  ultimately show ?thesis by simp
qed

subsection \<open>Evaluation without assertion failures\<close>

text \<open>
  An evaluation returns (its result is not \<open>Inl\<close>) when every call it makes of a
  sub-matcher does; no class catches an exception of its sub-matcher.
\<close>

lemma any_of_returns: "(\<And>x. \<not> isl (f x)) \<Longrightarrow> \<not> isl (any_of f xs)"
proof (induction xs)
  case Nil
  then show ?case by simp
next
  case (Cons x xs)
  from Cons.prems have "\<not> isl (f x)" by blast
  with Cons show ?case by (cases "f x") auto
qed

lemma all_of_returns: "(\<And>x. \<not> isl (f x)) \<Longrightarrow> \<not> isl (all_of f xs)"
proof (induction xs)
  case Nil
  then show ?case by simp
next
  case (Cons x xs)
  from Cons.prems have "\<not> isl (f x)" by blast
  with Cons show ?case by (cases "f x") auto
qed

lemma first_of_returns: "(\<And>x. \<not> isl (g x)) \<Longrightarrow> \<not> isl (first_of g xs)"
proof (induction xs)
  case Nil
  then show ?case by simp
next
  case (Cons x xs)
  from Cons.prems have "\<not> isl (g x)" by blast
  with Cons show ?case by (cases "g x") (auto split: option.splits)
qed

lemma last_of_returns: "(\<And>x. \<not> isl (g x)) \<Longrightarrow> \<not> isl (last_of g tmp xs)"
proof (induction xs arbitrary: tmp)
  case Nil
  then show ?case by simp
next
  case (Cons x xs)
  from Cons.prems have "\<not> isl (g x)" by blast
  with Cons show ?case by (cases "g x") (auto split: option.splits)
qed

lemma or_else_returns: "\<not> isl a \<Longrightarrow> \<not> isl b \<Longrightarrow> \<not> isl (or_else a b)"
  by (cases a) (auto simp: or_else_def)

lemma and_then_returns: "\<not> isl a \<Longrightarrow> \<not> isl b \<Longrightarrow> \<not> isl (and_then a b)"
  by (cases a) (auto simp: and_then_def)

lemma not_of_returns: "\<not> isl a \<Longrightarrow> \<not> isl (not_of a)"
  by (cases a) (auto simp: not_of_def)

lemma or_else_match_returns: "\<not> isl a \<Longrightarrow> \<not> isl b \<Longrightarrow> \<not> isl (or_else_match a b)"
  by (cases a) (auto simp: or_else_match_def split: option.splits)

lemma and_match_returns: "\<not> isl a \<Longrightarrow> \<not> isl b \<Longrightarrow> \<not> isl (and_match a b)"
  by (cases a; cases b) (auto simp: and_match_def split: option.splits)

lemma not_match_returns: "\<not> isl a \<Longrightarrow> \<not> isl (not_match a)"
  by (cases a) (auto simp: not_match_def split: option.splits)

lemma paired_with_returns: "\<not> isl a \<Longrightarrow> \<not> isl (paired_with a r)"
  by (cases a) (auto simp: paired_with_def split: option.splits)

lemma matches_versions_returns:
  assumes "\<And>v. \<not> isl (f v)"
  shows "\<not> isl (matches_versions f vs)"
proof -
  have "\<not> isl (any_of (\<lambda>v. f (Some v)) vs)"
    by (rule any_of_returns) (rule assms)
  moreover have "\<not> isl (f None)" by (rule assms)
  ultimately show ?thesis
    by (cases "any_of (\<lambda>v. f (Some v)) vs") (auto simp: matches_versions_def)
qed

lemma get_match_versions_returns:
  assumes "\<And>v. \<not> isl (g v)"
  shows "\<not> isl (get_match_versions g vs)"
proof -
  have "\<not> isl (first_of (\<lambda>v. g (Some v)) vs)"
    by (rule first_of_returns) (rule assms)
  moreover have "\<not> isl (g None)" by (rule assms)
  ultimately show ?thesis
    by (cases "first_of (\<lambda>v. g (Some v)) vs") (auto simp: get_match_versions_def)
qed

lemma dep_matches_returns:
  assumes "\<And>q w. \<not> isl (f q w)"
  shows "\<not> isl (dep_matches cat type broken f v)"
  by (simp add: dep_matches_def assms any_of_returns or_else_returns split: option.splits)

lemma dep_get_match_returns:
  assumes "\<And>q w. \<not> isl (g q w)"
  shows "\<not> isl (dep_get_match cat type broken g v)"
  by (simp add: dep_get_match_def assms first_of_returns or_else_match_returns
      paired_with_returns split: option.splits)

lemma revdep_matches_returns:
  assumes "\<And>q w. \<not> isl (f q w)"
  shows "\<not> isl (revdep_matches cat type broken f p v)"
  by (simp add: revdep_matches_def assms any_of_returns or_else_returns split: option.splits)

lemma revdep_get_match_returns:
  assumes "\<And>q w. \<not> isl (g q w)"
  shows "\<not> isl (revdep_get_match cat type broken g p v)"
  by (simp add: revdep_get_match_def assms first_of_returns or_else_match_returns
      paired_with_returns split: option.splits)

lemma provides_matches_returns:
  assumes "\<And>q. \<not> isl (fp q)"
  shows "\<not> isl (provides_matches cat fp v)"
  by (simp add: provides_matches_def assms any_of_returns split: option.splits)

lemma provides_get_match_returns:
  assumes "\<And>q w. \<not> isl (g q w)"
  shows "\<not> isl (provides_get_match cat g v)"
  by (simp add: provides_get_match_def assms first_of_returns paired_with_returns
      split: option.splits)

lemma revprv_matches_returns:
  assumes "\<And>q w. \<not> isl (f q w)"
  shows "\<not> isl (revprv_matches cat f p)"
  by (simp add: revprv_matches_def assms any_of_returns)

lemma revprv_get_match_returns:
  assumes "\<And>q w. \<not> isl (g q w)"
  shows "\<not> isl (revprv_get_match cat g p)"
  by (simp add: revprv_get_match_def assms first_of_returns paired_with_returns)

lemma matches_returns:
  "indices_below (length st) m
   \<Longrightarrow> \<not> isl (matches cat m p v st) \<and> \<not> isl (matches_pkg cat m p st)"
proof (induction m arbitrary: p v st)
  case (Leaf l)
  show ?case by (simp add: matches_versions_returns)
next
  case (Dep_matcher type m broken)
  then show ?case by (simp add: matches_versions_returns dep_matches_returns)
next
  case (Or_matcher l r)
  then show ?case by (simp add: or_else_returns)
next
  case (And_matcher l r)
  then show ?case by (simp add: and_then_returns)
next
  case (Not_matcher m)
  then show ?case by (simp add: not_of_returns)
next
  case (Widen_matcher m)
  then show ?case by simp
next
  case (Select_matcher f m)
  then show ?case by (simp add: matches_versions_returns and_then_returns)
next
  case (Revdep_matcher type m broken)
  then show ?case by (simp add: matches_versions_returns revdep_matches_returns)
next
  case (Provides_matcher m)
  then show ?case by (simp add: matches_versions_returns provides_matches_returns)
next
  case (Revprv_matcher m)
  then show ?case by (simp add: matches_versions_returns revprv_matches_returns)
next
  case (All_matcher m)
  then show ?case by (simp add: all_of_returns)
next
  case (Any_matcher m)
  then show ?case by (simp add: any_of_returns)
next
  case (Explicit_matcher m)
  from Explicit_matcher.prems have "indices_below (length (st @ [x])) m" for x
    by simp
  with Explicit_matcher.IH show ?case by simp
next
  case (Bind_matcher m variable)
  then show ?case by (simp split: stack_value.splits)
next
  case (Equal_matcher variable)
  then show ?case by (simp add: matches_versions_returns)
qed

lemma get_match_returns:
  "indices_below (length st) m
   \<Longrightarrow> \<not> isl (get_match cat m p v st) \<and> \<not> isl (get_match_pkg cat m p st)"
proof (induction m arbitrary: p v st)
  case (Leaf l)
  show ?case by (simp add: get_match_versions_returns)
next
  case (Dep_matcher type m broken)
  then show ?case by (simp add: get_match_versions_returns dep_get_match_returns)
next
  case (Or_matcher l r)
  then show ?case by (simp add: or_else_match_returns)
next
  case (And_matcher l r)
  then show ?case by (simp add: and_match_returns)
next
  case (Not_matcher m)
  then show ?case by (simp add: not_match_returns)
next
  case (Widen_matcher m)
  then show ?case by simp
next
  case (Select_matcher f m)
  have sel: "\<not> isl (get_match cat (Select_matcher f m) q w st)" for q w
  proof -
    from Select_matcher.prems have "\<not> isl (matches cat f q w st)"
      by (simp add: matches_returns)
    moreover from Select_matcher have "\<not> isl (get_match cat m q w st)"
      by simp
    ultimately show ?thesis
      by (cases "matches cat f q w st") auto
  qed
  then show ?case by (simp add: get_match_versions_returns)
next
  case (Revdep_matcher type m broken)
  then show ?case by (simp add: get_match_versions_returns revdep_get_match_returns)
next
  case (Provides_matcher m)
  then show ?case by (simp add: get_match_versions_returns provides_get_match_returns)
next
  case (Revprv_matcher m)
  then show ?case by (simp add: get_match_versions_returns revprv_get_match_returns)
next
  case (All_matcher m)
  then show ?case by (simp add: last_of_returns)
next
  case (Any_matcher m)
  then show ?case by (simp add: first_of_returns)
next
  case (Explicit_matcher m)
  from Explicit_matcher.prems have "indices_below (length (st @ [x])) m" for x
    by simp
  with Explicit_matcher.IH show ?case by simp
next
  case (Bind_matcher m variable)
  then show ?case by (simp split: stack_value.splits)
next
  case (Equal_matcher variable)
  then show ?case by (simp add: get_match_versions_returns)
qed

subsection \<open>Parsed matchers keep their indices in range\<close>

lemma then_parseE:
  assumes "then_parse r k = Some (Inr (m, rest))"
  obtains x s where "r = Some (Inr (x, s))" and "k x s = Some (Inr (m, rest))"
  using assms by (auto simp: then_parse_def split: option.splits sum.splits)

lemma after_charE:
  assumes "after_char r k = Some (Inr y)"
  obtains s where "r = Inr s" and "k s = Some (Inr y)"
  using assms by (auto simp: after_char_def split: sum.splits)

lemma builtD: "built r s = Some (Inr (m, rest)) \<Longrightarrow> r = Inr m"
  by (auto simp: built_def split: sum.splits)

lemma keeps_indicesD:
  "keeps_indices plist \<Longrightarrow> env_below env d \<Longrightarrow> plist s ts wide env = Some (Inr (m, rest))
   \<Longrightarrow> indices_below d m"
  unfolding keeps_indices_def by blast

lemma keeps_indicesI:
  assumes "\<And>s ts wide env d m rest.
             env_below env d \<Longrightarrow> plist s ts wide env = Some (Inr (m, rest)) \<Longrightarrow> indices_below d m"
  shows "keeps_indices plist"
  unfolding keeps_indices_def using assms by blast

lemma pkg_string_matcher_leaf: "pkg_string_matcher h ctor pat = Inr m \<Longrightarrow> indices_below d m"
  by (auto simp: pkg_string_matcher_def split: option.splits)

lemma make_package_version_matcher_leaf:
  "make_package_version_matcher h substr = Inr m \<Longrightarrow> indices_below d m"
  by (auto simp: make_package_version_matcher_def dest: pkg_string_matcher_leaf split: if_splits)

lemma make_action_matcher_leaf: "make_action_matcher a = Inr m \<Longrightarrow> indices_below d m"
  by (auto simp: make_action_matcher_def split: if_splits)

lemma make_priority_matcher_leaf: "make_priority_matcher h substr = Inr m \<Longrightarrow> indices_below d m"
  by (auto simp: make_priority_matcher_def split: sum.splits)

lemma with_string_args_leaf:
  assumes "with_string_args mk s = Inr (m, rest)"
    and "\<And>substr. mk substr = Inr m \<Longrightarrow> indices_below d m"
  shows "indices_below d m"
  using assms by (auto simp: with_string_args_def split: sum.splits)

lemma leaf_matcher_args_leaf: "leaf_matcher_args h type s = Inr (m, rest) \<Longrightarrow> indices_below d m"
  by (cases type)
    (auto elim!: with_string_args_leaf
      dest: pkg_string_matcher_leaf make_action_matcher_leaf make_priority_matcher_leaf
        make_package_version_matcher_leaf)

lemma short_form_flag_leaf: "short_form_flag c = Some m \<Longrightarrow> indices_below d m"
  by (auto simp: short_form_flag_def split: if_splits)

lemma short_form_matcher_leaf: "short_form_matcher h c substr = Inr m \<Longrightarrow> indices_below d m"
  by (auto simp: short_form_matcher_def
      dest: pkg_string_matcher_leaf make_action_matcher_leaf make_priority_matcher_leaf
        make_package_version_matcher_leaf
      split: if_splits option.splits)

lemma name_or_description_leaf:
  "name_or_description h sd a b = Inr m \<Longrightarrow> indices_below d m"
  by (auto simp: name_or_description_def dest: pkg_string_matcher_leaf
      split: sum.splits if_splits)

lemma get_variable_index_below:
  assumes "env_below env d" and "get_variable_index x env = Inr idx"
  shows "idx < d"
proof -
  from assms(2) have "map_of env x = Some idx"
    by (auto simp: get_variable_index_def env_get_def split: option.splits)
  then have "(x, idx) \<in> set env"
    by (rule map_of_SomeD)
  with assms(1) show ?thesis
    by (auto simp: env_below_def list_all_iff)
qed

lemma env_bind_below:
  assumes "env_below env d"
  shows "env_below (env_bind env x (env_size env)) (Suc d)"
proof -
  from assms have len: "length env \<le> d" and vals: "\<forall>b\<in>set env. snd b < d"
    by (auto simp: env_below_def env_size_def list_all_iff)
  have "length (filter (\<lambda>b. fst b \<noteq> x) env) \<le> length env"
    by (rule length_filter_le)
  then have "length (filter (\<lambda>b. fst b \<noteq> x) env) \<le> d"
    using len by (rule le_trans)
  moreover from vals have "\<forall>b\<in>set env. snd b < Suc d"
    by (auto intro: less_SucI)
  moreover from len have "length env < Suc d"
    by simp
  ultimately show ?thesis
    by (simp add: env_below_def env_bind_def env_size_def list_all_iff)
qed

lemma maybe_bind_below:
  assumes "maybe_bind bv m env = Inr m'" and "indices_below d m" and "env_below env d"
  shows "indices_below d m'"
  using assms
  by (auto simp: maybe_bind_def dest: get_variable_index_below split: if_splits sum.splits)

lemma parse_pkg_matcher_args_keeps:
  assumes "keeps_indices plist"
  shows "keeps_indices (parse_pkg_matcher_args plist)"
proof (rule keeps_indicesI)
  fix s ts wide env d m rest
  assume env: "env_below env d"
    and res: "parse_pkg_matcher_args plist s ts wide env = Some (Inr (m, rest))"
  from res obtain s1 s2 where "plist s1 ts wide env = Some (Inr (m, s2))"
    by (auto simp: parse_pkg_matcher_args_def elim!: after_charE then_parseE)
  with assms env show "indices_below d m"
    by (rule keeps_indicesD)
qed

lemma parse_optional_pkg_matcher_args_below:
  assumes "keeps_indices plist" and "env_below env d"
    and "parse_optional_pkg_matcher_args plist s ts wide env = Some (Inr (Some m, rest))"
  shows "indices_below d m"
proof -
  from assms(3) obtain s1 s2 where
    "parse_pkg_matcher_args plist s1 ts wide env = Some (Inr (m, s2))"
    by (auto simp: parse_optional_pkg_matcher_args_def elim!: then_parseE
        split: list.splits if_splits)
  with parse_pkg_matcher_args_keeps [OF assms(1)] assms(2) show ?thesis
    by (rule keeps_indicesD)
qed

lemma parse_unary_matcher_keeps:
  assumes "keeps_indices plist"
    and "\<And>d a. indices_below d a \<Longrightarrow> indices_below d (ctor a)"
  shows "keeps_indices (parse_unary_matcher plist ctor)"
proof (rule keeps_indicesI)
  fix s ts wide env d m rest
  assume env: "env_below env d"
    and res: "parse_unary_matcher plist ctor s ts wide env = Some (Inr (m, rest))"
  from res obtain s1 s2 a where "plist s1 ts wide env = Some (Inr (a, s2))" and "m = ctor a"
    by (auto simp: parse_unary_matcher_def elim!: after_charE then_parseE)
  with keeps_indicesD [OF assms(1) env] assms(2) show "indices_below d m"
    by blast
qed

lemma parse_binary_matcher_keeps:
  assumes "keeps_indices plist"
    and "\<And>d a b. indices_below d a \<Longrightarrow> indices_below d b \<Longrightarrow> indices_below d (ctor a b)"
  shows "keeps_indices (parse_binary_matcher plist ctor)"
proof (rule keeps_indicesI)
  fix s ts wide env d m rest
  assume env: "env_below env d"
    and res: "parse_binary_matcher plist ctor s ts wide env = Some (Inr (m, rest))"
  from res obtain s1 s2 s3 s4 ts1 a b where
    "plist s1 ts1 wide env = Some (Inr (a, s2))"
    and "plist s3 ts wide env = Some (Inr (b, s4))" and "m = ctor a b"
    by (auto simp: parse_binary_matcher_def elim!: after_charE then_parseE)
  with keeps_indicesD [OF assms(1) env] assms(2) show "indices_below d m"
    by blast
qed

lemma parse_explicit_matcher_keeps:
  assumes "keeps_indices plist"
  shows "keeps_indices (parse_explicit_matcher plist matcher_name)"
proof (rule keeps_indicesI)
  fix s ts wide env d m rest
  assume env: "env_below env d"
    and res: "parse_explicit_matcher plist matcher_name s ts wide env = Some (Inr (m, rest))"
  from res obtain s1 s2 x a where
    "plist s1 ts wide (env_bind env x (env_size env)) = Some (Inr (a, s2))"
    and m: "m = Explicit_matcher a"
    by (auto simp: parse_explicit_matcher_def elim!: then_parseE split: list.splits if_splits)
  with keeps_indicesD [OF assms env_bind_below [OF env]] have "indices_below (Suc d) a"
    by blast
  with m show "indices_below d m" by simp
qed

lemma parse_bind_args_below:
  assumes "keeps_indices plist" and "env_below env d"
    and "parse_bind_args plist s wide env = Some (Inr (m, rest))"
  shows "indices_below d m"
proof -
  from assms(3) obtain s1 s2 ts1 x idx a where
    "get_variable_index x env = Inr idx"
    and "plist s1 ts1 wide env = Some (Inr (a, s2))" and "m = Bind_matcher a idx"
    by (auto simp: parse_bind_args_def elim!: after_charE then_parseE split: sum.splits)
  with keeps_indicesD [OF assms(1,2)] get_variable_index_below [OF assms(2)]
  show ?thesis by auto
qed

lemma parse_typed_matcher_args_keeps:
  assumes "keeps_indices plist"
  shows "keeps_indices (parse_typed_matcher_args plist h type matcher_name)"
proof (rule keeps_indicesI)
  fix s ts wide env d m rest
  assume env: "env_below env d"
    and res: "parse_typed_matcher_args plist h type matcher_name s ts wide env
                = Some (Inr (m, rest))"
  note args = keeps_indicesD [OF parse_pkg_matcher_args_keeps [OF assms] env]
  note binary = keeps_indicesD [OF parse_binary_matcher_keeps [OF assms] env]
  note unary = keeps_indicesD [OF parse_unary_matcher_keeps [OF assms] env]
  note explicit = keeps_indicesD [OF parse_explicit_matcher_keeps [OF assms] env]
  note bind = parse_bind_args_below [OF assms env]
  show "indices_below d m"
  proof (cases type)
    case matcher_type_all
    with res args show ?thesis
      by (auto simp: parse_typed_matcher_args_def elim!: then_parseE split: if_splits)
  next
    case matcher_type_and
    with res binary [of And_matcher] show ?thesis
      by (auto simp: parse_typed_matcher_args_def)
  next
    case matcher_type_any
    with res args show ?thesis
      by (auto simp: parse_typed_matcher_args_def elim!: then_parseE split: if_splits)
  next
    case matcher_type_bind
    with res bind show ?thesis
      by (auto simp: parse_typed_matcher_args_def)
  next
    case matcher_type_for
    with res explicit show ?thesis
      by (auto simp: parse_typed_matcher_args_def)
  next
    case matcher_type_narrow
    with res binary [of Select_matcher] show ?thesis
      by (auto simp: parse_typed_matcher_args_def)
  next
    case matcher_type_not
    with res args show ?thesis
      by (auto simp: parse_typed_matcher_args_def elim!: then_parseE)
  next
    case matcher_type_or
    with res binary [of Or_matcher] show ?thesis
      by (auto simp: parse_typed_matcher_args_def)
  next
    case matcher_type_provides
    with res unary [of Provides_matcher] show ?thesis
      by (auto simp: parse_typed_matcher_args_def)
  next
    case matcher_type_widen
    with res args show ?thesis
      by (auto simp: parse_typed_matcher_args_def elim!: then_parseE)
  qed (use res in \<open>auto simp: parse_typed_matcher_args_def simp del: leaf_matcher_args.simps
        dest: leaf_matcher_args_leaf\<close>)
qed

lemma parse_matcher_args_keeps:
  assumes "keeps_indices plist"
  shows "keeps_indices (parse_matcher_args plist h matcher_name)"
proof (rule keeps_indicesI)
  fix s ts wide env d m rest
  assume env: "env_below env d"
    and res: "parse_matcher_args plist h matcher_name s ts wide env = Some (Inr (m, rest))"
  note args = keeps_indicesD [OF parse_pkg_matcher_args_keeps [OF assms] env]
  note typed = keeps_indicesD [OF parse_typed_matcher_args_keeps [OF assms] env]
  note opt = parse_optional_pkg_matcher_args_below [OF assms env]
  obtain broken reverse suffix where parts: "dep_name_parts matcher_name = (broken, reverse, suffix)"
    by (cases "dep_name_parts matcher_name") auto
  show "indices_below d m"
  proof (cases "parse_deptype suffix")
    case None
    with res parts args typed show ?thesis
      by (auto simp: parse_matcher_args_def elim!: then_parseE split: if_splits option.splits)
  next
    case (Some deptype)
    with res parts args opt show ?thesis
      by (auto simp: parse_matcher_args_def elim!: then_parseE split: if_splits option.splits)
  qed
qed

lemma parse_named_matcher_keeps:
  assumes "keeps_indices plist"
  shows "keeps_indices (parse_named_matcher plist h)"
proof (rule keeps_indicesI)
  fix s ts wide env d m rest
  assume env: "env_below env d"
    and res: "parse_named_matcher plist h s ts wide env = Some (Inr (m, rest))"
  from res obtain name bv s1 s2 a where
    "parse_matcher_args plist h name s1 ts wide env = Some (Inr (a, s2))"
    and "maybe_bind bv a env = Inr m"
    by (auto simp: parse_named_matcher_def elim!: then_parseE dest!: builtD split: sum.splits)
  with keeps_indicesD [OF parse_matcher_args_keeps [OF assms] env] env
  show "indices_below d m"
    by (blast intro: maybe_bind_below)
qed

lemma parse_equal_matcher_below:
  assumes "env_below env d" and "parse_equal_matcher s ts env = Some (Inr (m, rest))"
  shows "indices_below d m"
  using assms
  by (auto simp: parse_equal_matcher_def dest: get_variable_index_below
      split: if_splits sum.splits)

lemma parse_function_style_matcher_tail_keeps:
  assumes "keeps_indices plist"
  shows "keeps_indices (parse_function_style_matcher_tail plist h)"
proof (rule keeps_indicesI)
  fix s ts wide env d m rest
  assume env: "env_below env d"
    and res: "parse_function_style_matcher_tail plist h s ts wide env = Some (Inr (m, rest))"
  with keeps_indicesD [OF parse_named_matcher_keeps [OF assms] env]
    parse_equal_matcher_below [OF env]
  show "indices_below d m"
    by (auto simp: parse_function_style_matcher_tail_def split: list.splits if_splits)
qed

lemma dep_short_form_below: "indices_below d m \<Longrightarrow> indices_below d (dep_short_form c head m)"
  by (cases head) (auto simp: dep_short_form_def)

lemma parse_short_form_below:
  assumes "keeps_indices patom" and "env_below env d"
    and "parse_short_form patom h sd c s ts env = Some (Inr (m, rest))"
  shows "indices_below d m"
proof (cases "short_form_flag c")
  case (Some a)
  with assms(3) show ?thesis
    by (auto simp: parse_short_form_def dest: short_form_flag_leaf)
next
  case None
  note atom = keeps_indicesD [OF assms(1,2)]
  consider
    (pcw) "c = CHR ''P'' \<or> c = CHR ''C'' \<or> c = CHR ''W''"
    | (s) "c = CHR ''S''"
    | (dr) "c = CHR ''D'' \<or> c = CHR ''R''"
    | (other) "\<not> (c = CHR ''P'' \<or> c = CHR ''C'' \<or> c = CHR ''W'')" "c \<noteq> CHR ''S''"
        "\<not> (c = CHR ''D'' \<or> c = CHR ''R'')"
    by blast
  then show ?thesis
  proof cases
    case pcw
    with None assms(3) obtain s1 wide a where
      "patom s ts wide env = Some (Inr (a, s1))"
      and "m = Dep_matcher Conflicts a False \<or> m = Provides_matcher a \<or> m = Widen_matcher a"
      by (auto simp: parse_short_form_def elim!: then_parseE split: if_splits)
    with atom show ?thesis by auto
  next
    case s
    with None assms(3) obtain s1 s2 a b where
      "patom s ts False env = Some (Inr (a, s1))"
      and "patom s1 ts False env = Some (Inr (b, s2))" and "m = Select_matcher a b"
      by (auto simp: parse_short_form_def elim!: then_parseE)
    with atom show ?thesis by auto
  next
    case dr
    with None assms(3) obtain head s1 s2 a where
      "patom s1 ts False env = Some (Inr (a, s2))" and "m = dep_short_form c head a"
      by (auto simp: parse_short_form_def elim!: then_parseE split: sum.splits)
    with atom show ?thesis by (auto intro: dep_short_form_below)
  next
    case other
    with None assms(3) obtain substr where "short_form_matcher h c substr = Inr m"
      by (auto simp: parse_short_form_def dest!: builtD split: sum.splits)
    then show ?thesis by (rule short_form_matcher_leaf)
  qed
qed

lemma unmatched_paren_same: "unmatched_paren lst s = Some (Inr (m, rest)) \<Longrightarrow> m = lst"
  by (auto simp: unmatched_paren_def split: list.splits if_splits)

lemma parse_atom_body_keeps:
  assumes "keeps_indices patom" and "keeps_indices plist"
  shows "keeps_indices (parse_atom_body patom plist h sd)"
proof (rule keeps_indicesI)
  fix s ts wide env d m rest
  assume env: "env_below env d"
    and res: "parse_atom_body patom plist h sd s ts wide env = Some (Inr (m, rest))"
  note atom = keeps_indicesD [OF assms(1) env]
  note lst = keeps_indicesD [OF assms(2) env]
  note tail = keeps_indicesD [OF parse_function_style_matcher_tail_keeps [OF assms(2)] env]
  note short = parse_short_form_below [OF assms(1) env]
  let ?c = "hd (dropWhile isspace s)"
  from res have nb: "\<not> at_boundary (dropWhile isspace s) ts"
    by (auto simp: parse_atom_body_def)
  consider (not) "?c = CHR ''!''" | (paren) "?c = CHR ''(''" | (func) "?c = CHR ''?''"
    | (tilde) "?c = CHR ''~''"
    | (bare) "?c \<noteq> CHR ''!''" "?c \<noteq> CHR ''(''" "?c \<noteq> CHR ''?''" "?c \<noteq> CHR ''~''"
    by blast
  then show "indices_below d m"
  proof cases
    case not
    with res nb obtain s1 s2 a where "patom s1 ts wide env = Some (Inr (a, s2))"
      and "m = Not_matcher a"
      by (auto simp: parse_atom_body_def elim!: then_parseE)
    with atom show ?thesis by auto
  next
    case paren
    with res nb obtain s1 s2 a where "plist s1 [] wide env = Some (Inr (a, s2))"
      and "unmatched_paren a s2 = Some (Inr (m, rest))"
      by (auto simp: parse_atom_body_def elim!: then_parseE)
    with lst show ?thesis by (auto dest: unmatched_paren_same)
  next
    case func
    with res nb tail show ?thesis
      by (auto simp: parse_atom_body_def)
  next
    case tilde
    with res nb short show ?thesis
      by (auto simp: parse_atom_body_def dest!: builtD dest: name_or_description_leaf
          split: list.splits)
  next
    case bare
    with res nb show ?thesis
      by (auto simp: parse_atom_body_def dest!: builtD dest: name_or_description_leaf
          split: sum.splits)
  qed
qed

lemma parse_condition_tail_below:
  assumes "keeps_indices plist" and "env_below env d" and "indices_below d grp"
    and "parse_condition_tail plist grp s ts wide env = Some (Inr (m, rest))"
  shows "indices_below d m"
  using assms(3,4) keeps_indicesD [OF assms(1,2)]
  by (auto simp: parse_condition_tail_def elim!: then_parseE split: list.splits if_splits)

lemma parser_keeps_indices:
  "keeps_indices (parse_atom n h sd)
   \<and> (\<forall>rval s ts wide env d m rest.
        env_below env d \<and> (\<forall>r. rval = Some r \<longrightarrow> indices_below d r)
        \<and> parse_and_group n h sd rval s ts wide env = Some (Inr (m, rest))
        \<longrightarrow> indices_below d m)
   \<and> keeps_indices (parse_condition_list n h sd)"
proof (induction n)
  case 0
  show ?case by (simp add: keeps_indices_def)
next
  case (Suc n)
  then have atom: "keeps_indices (parse_atom n h sd)"
    and grp: "\<And>rval s ts wide env d m rest.
        env_below env d \<Longrightarrow> (\<And>r. rval = Some r \<Longrightarrow> indices_below d r)
        \<Longrightarrow> parse_and_group n h sd rval s ts wide env = Some (Inr (m, rest))
        \<Longrightarrow> indices_below d m"
    and lst: "keeps_indices (parse_condition_list n h sd)"
    by blast+
  have "keeps_indices (parse_atom (Suc n) h sd)"
    using parse_atom_body_keeps [OF atom lst, of h sd]
    by (simp add: keeps_indices_def)
  moreover have "indices_below d m"
    if env: "env_below env d" and rv: "\<And>r. rval = Some r \<Longrightarrow> indices_below d r"
      and res: "parse_and_group (Suc n) h sd rval s ts wide env = Some (Inr (m, rest))"
    for rval s ts wide env d m rest
  proof (cases "at_boundary s ts")
    case True
    with res rv show ?thesis
      by (auto split: option.splits)
  next
    case False
    with res obtain a s1 where a: "parse_atom n h sd s ts wide env = Some (Inr (a, s1))"
      and next_round: "parse_and_group n h sd (Some (and_onto rval a)) (dropWhile isspace s1) ts
             wide env = Some (Inr (m, rest))"
      by (auto elim!: then_parseE)
    from keeps_indicesD [OF atom env a] have "indices_below d a" .
    with rv have "indices_below d (and_onto rval a)"
      by (cases rval) (auto simp: and_onto_def)
    with grp [OF env _ next_round] show ?thesis by simp
  qed
  moreover have "keeps_indices (parse_condition_list (Suc n) h sd)"
  proof (rule keeps_indicesI)
    fix s ts wide env d m rest
    assume env: "env_below env d"
      and res: "parse_condition_list (Suc n) h sd s ts wide env = Some (Inr (m, rest))"
    from res obtain g s1 where
      g: "parse_and_group n h sd None (dropWhile isspace s) ts wide env = Some (Inr (g, s1))"
      and tail: "parse_condition_tail (parse_condition_list n h sd) g s1 ts wide env
                   = Some (Inr (m, rest))"
      by (auto elim!: then_parseE)
    from grp [OF env _ g] have "indices_below d g" by simp
    with lst env tail show "indices_below d m"
      by (blast intro: parse_condition_tail_below)
  qed
  ultimately show ?case by blast
qed

lemma env_below_empty: "env_below [] 0"
  by (simp add: env_below_def env_size_def)

lemma parse_pattern_try_parsed:
  assumes "parse_pattern_try n h s ts sd rfp = Some (Inr m)"
  shows "\<exists>rest. parse_condition_list n h sd s ts True [] = Some (Inr (m, rest))"
  using assms
  by (cases "parse_condition_list n h sd s ts True []")
    (auto simp: parse_pattern_try_def split: sum.splits if_splits)

lemma parse_pattern_indices:
  assumes "parse_pattern n h s ts sd fe rfp = Some (Returns (Some m) errs)"
  shows "indices_below 0 m"
proof -
  let ?s0 = "skip_space_unterminated ts s"
  from assms obtain r where tried: "parse_pattern_try n h ?s0 ts sd rfp = Some r"
    and caught: "parse_pattern_catch fe r = Returns (Some m) errs"
    by (auto simp: parse_pattern_def split: if_splits)
  from caught have "r = Inr m"
    by (cases r) (auto simp: parse_pattern_catch_def)
  with tried obtain rest where
    "parse_condition_list n h sd ?s0 ts True [] = Some (Inr (m, rest))"
    by (blast dest: parse_pattern_try_parsed)
  with parser_keeps_indices [of n h sd] env_below_empty show ?thesis
    by (blast dest: keeps_indicesD)
qed

text \<open>
  Claim C4. Let \<^verbatim>\<open>parse_pattern\<close> return a matcher \<open>m\<close>. Every index of a bind or
  equal matcher in \<open>m\<close> is less than the number of explicit matchers around it, which is
  the size of the stack when the node is evaluated from an empty stack. So for every
  catalog, package and version, \<^verbatim>\<open>apply_matcher\<close> and \<^verbatim>\<open>get_match\<close>, with a
  version and without, never fail the index assertion of these nodes.
\<close>

theorem parsed_indices_in_range:
  assumes "parse_pattern n h s ts sd fe rfp = Some (Returns (Some m) errs)"
  shows "indices_below 0 m
         \<and> apply_matcher cat m p v \<noteq> Inl Assertion_failure
         \<and> apply_matcher_pkg cat m p \<noteq> Inl Assertion_failure
         \<and> get_match_fresh cat m p v \<noteq> Inl Assertion_failure
         \<and> get_match_pkg_fresh cat m p \<noteq> Inl Assertion_failure"
proof -
  from parse_pattern_indices [OF assms] have below: "indices_below 0 m" .
  then have depth: "indices_below (length ([] :: match_stack)) m"
    by simp
  have "\<not> isl (matches cat m p v [])" and "\<not> isl (matches_pkg cat m p [])"
    using matches_returns [OF depth, of cat p v] by simp_all
  moreover have "\<not> isl (get_match cat m p v [])" and "\<not> isl (get_match_pkg cat m p [])"
    using get_match_returns [OF depth, of cat p v] by simp_all
  ultimately show ?thesis
    unfolding apply_matcher_def apply_matcher_pkg_def get_match_fresh_def
      get_match_pkg_fresh_def
    using below by (metis sum.disc(1))
qed

theorem parsed_indices_in_range_witness:
  "parse_pattern 12 plain_host ''?for x: ?depends(?=x)'' [] False True True
     = Some (Returns (Some (Explicit_matcher (Dep_matcher Depends (Equal_matcher 0) False))) [])
   \<and> indices_below 0 (Explicit_matcher (Dep_matcher Depends (Equal_matcher 0) False))
   \<and> apply_matcher two_versions
         (Explicit_matcher (Dep_matcher Depends (Equal_matcher 0) False)) 0 (Some 1)
       \<noteq> Inl Assertion_failure
   \<and> apply_matcher_pkg two_versions
         (Explicit_matcher (Dep_matcher Depends (Equal_matcher 0) False)) 0
       \<noteq> Inl Assertion_failure
   \<and> get_match_fresh two_versions
         (Explicit_matcher (Dep_matcher Depends (Equal_matcher 0) False)) 0 (Some 1)
       \<noteq> Inl Assertion_failure
   \<and> get_match_pkg_fresh two_versions
         (Explicit_matcher (Dep_matcher Depends (Equal_matcher 0) False)) 0
       \<noteq> Inl Assertion_failure"
proof -
  have parsed: "parse_pattern 12 plain_host ''?for x: ?depends(?=x)'' [] False True True
     = Some (Returns (Some (Explicit_matcher (Dep_matcher Depends (Equal_matcher 0) False))) [])"
    by code_simp
  from parsed_indices_in_range [OF parsed, of two_versions 0 "Some 1"] parsed
  show ?thesis by blast
qed

end
